theory Spec2Isabelle
  imports Main "HOL-Library.Word"
begin

unbundle bit_operations_syntax

section \<open>Machine types and constants of ov13b10.c\<close>

type_synonym u8 = "8 word"
type_synonym u16 = "16 word"
type_synonym u32 = "32 word"

text \<open>Kernel error numbers; the driver returns them negated.\<close>

definition EIO :: int where "EIO = 5"
definition ENODEV :: int where "ENODEV = 19"
definition EINVAL :: int where "EINVAL = 22"
definition EREMOTEIO :: int where "EREMOTEIO = 121"

definition CHIP_ID :: u32 where "CHIP_ID = 0x560d42"
definition OV13B10_REG_CHIP_ID :: u16 where "OV13B10_REG_CHIP_ID = 0x300a"
definition OV13B10_REG_CTRL_MODE :: u16 where "OV13B10_REG_CTRL_MODE = 0x0100"
definition OV13B10_MODE_SW_STANDBY :: u32 where "OV13B10_MODE_SW_STANDBY = 0x0"
definition OV13B10_MODE_STREAMING :: u32 where "OV13B10_MODE_STREAMING = 0x1"
definition OV13B10_REG_EXPOSURE :: u16 where "OV13B10_REG_EXPOSURE = 0x3500"
definition OV13B10_VTS_MAX :: u32 where "OV13B10_VTS_MAX = 0x7fff"
definition OV13B10_REG_GAIN_H :: u16 where "OV13B10_REG_GAIN_H = 0x350a"
definition OV13B10_REG_GAIN_L :: u16 where "OV13B10_REG_GAIN_L = 0x350b"
definition OV13B10_GAIN_H_MASK :: u32 where "OV13B10_GAIN_H_MASK = 0x07"
definition OV13B10_GAIN_H_SHIFT :: nat where "OV13B10_GAIN_H_SHIFT = 8"
definition OV13B10_GAIN_L_MASK :: u32 where "OV13B10_GAIN_L_MASK = 0xff"
definition OV13B10_REG_TEST_PATTERN :: u16 where "OV13B10_REG_TEST_PATTERN = 0x5080"
definition OV13B10_TEST_PATTERN_ENABLE :: u32 where "OV13B10_TEST_PATTERN_ENABLE = 0x80"
definition OV13B10_TEST_PATTERN_DISABLE :: u32 where "OV13B10_TEST_PATTERN_DISABLE = 0x0"
definition OV13B10_REG_VTS :: u16 where "OV13B10_REG_VTS = 0x380e"
definition REG_NULL :: u16 where "REG_NULL = 0xFFFF"
definition OV13B10_REG_VALUE_08BIT :: u32 where "OV13B10_REG_VALUE_08BIT = 1"
definition OV13B10_REG_VALUE_16BIT :: u32 where "OV13B10_REG_VALUE_16BIT = 2"
definition OV13B10_REG_VALUE_24BIT :: u32 where "OV13B10_REG_VALUE_24BIT = 3"
definition OV13B10_XVCLK_FREQ :: nat where "OV13B10_XVCLK_FREQ = 24000000"

section \<open>The environment: bus, runtime PM and board resources as a recording double\<close>

datatype gpio = Power_Gpio | Reset_Gpio | Pwdn_Gpio

datatype pins = Pins_Default | Pins_Sleep

datatype ctrl_id =
    V4L2_CID_EXPOSURE | V4L2_CID_ANALOGUE_GAIN | V4L2_CID_VBLANK
  | V4L2_CID_TEST_PATTERN | V4L2_CID_HBLANK

text \<open>Every call the driver makes into the kernel is recorded, oldest first.\<close>

datatype event =
    Mutex_Lock
  | Mutex_Unlock
  | I2c_Master_Send "u8 list"
  | I2c_Transfer "u8 list" nat
  | Pm_Runtime_Get_Sync
  | Pm_Runtime_Put
  | Pm_Runtime_Put_Noidle
  | Pm_Runtime_Get_If_In_Use
  | Ctrl_Modify_Range ctrl_id int int int int
  | Gpiod_Set_Value gpio bool
  | Usleep_Range nat nat
  | Pinctrl_Select_State pins
  | Clk_Set_Rate nat
  | Clk_Get_Rate
  | Clk_Prepare_Enable
  | Clk_Disable_Unprepare
  | Regulator_Bulk_Enable
  | Regulator_Bulk_Disable

text \<open>
  \<open>dev_regs\<close> is the register file of the device behind the bus; \<open>i2c_faults\<close> scripts
  the upcoming bus transactions (\<open>True\<close>: the transaction fails; an exhausted script
  means success); the remaining fields script the results of the clock, regulator,
  pin-control and runtime-PM calls.
\<close>

record world =
  trace :: "event list"
  dev_regs :: "u16 \<Rightarrow> u8"
  i2c_faults :: "bool list"
  pm_usage :: nat
  pm_get_sync_ret :: int
  pinctrl_ret :: int
  clk_set_rate_ret :: int
  clk_rate :: nat
  clk_enable_ret :: int
  regulator_enable_ret :: int

definition emit :: "event \<Rightarrow> world \<Rightarrow> world" where
  "emit e w = w\<lparr>trace := trace w @ [e]\<rparr>"

text \<open>The messages handed to \<open>i2c_master_send\<close> so far, in order.\<close>

fun sent :: "event list \<Rightarrow> u8 list list" where
  "sent [] = []"
| "sent (I2c_Master_Send b # es) = b # sent es"
| "sent (_ # es) = sent es"

fun store_bytes :: "u16 \<Rightarrow> u8 list \<Rightarrow> (u16 \<Rightarrow> u8) \<Rightarrow> (u16 \<Rightarrow> u8)" where
  "store_bytes a [] m = m"
| "store_bytes a (b # bs) m = store_bytes (a + 1) bs (m(a := b))"

fun load_bytes :: "u16 \<Rightarrow> nat \<Rightarrow> (u16 \<Rightarrow> u8) \<Rightarrow> u8 list" where
  "load_bytes a 0 m = []"
| "load_bytes a (Suc n) m = m a # load_bytes (a + 1) n m"

definition be16 :: "u8 \<Rightarrow> u8 \<Rightarrow> u16" where
  "be16 hi lo = push_bit 8 (ucast hi) OR ucast lo"

definition next_fault :: "world \<Rightarrow> bool" where
  "next_fault w = (case i2c_faults w of [] \<Rightarrow> False | f # _ \<Rightarrow> f)"

definition pop_fault :: "world \<Rightarrow> world" where
  "pop_fault w = w\<lparr>i2c_faults := tl (i2c_faults w)\<rparr>"

text \<open>
  Bus double for \<open>i2c_master_send(client, buf, count)\<close>: a completed transfer stores
  the data bytes at the big-endian register address that leads the message and returns
  the byte count; a failed one returns a negative errno and leaves the device untouched.
\<close>

definition i2c_master_send :: "u8 list \<Rightarrow> world \<Rightarrow> int \<times> world" where
  "i2c_master_send buf w =
     (let w1 = pop_fault (emit (I2c_Master_Send buf) w) in
      if next_fault w then (- EREMOTEIO, w1)
      else (int (length buf),
            case buf of
              hi # lo # data \<Rightarrow> w1\<lparr>dev_regs := store_bytes (be16 hi lo) data (dev_regs w1)\<rparr>
            | _ \<Rightarrow> w1))"

text \<open>
  Bus double for \<open>i2c_transfer\<close> with the two messages of a register read: the address
  write \<open>abuf\<close> followed by a read into the buffer \<open>rbuf\<close>. Returns the number of
  messages done (2) and the buffer filled from the device, or a negative errno and the
  buffer as it was.
\<close>

definition i2c_transfer :: "u8 list \<Rightarrow> u8 list \<Rightarrow> world \<Rightarrow> int \<times> u8 list \<times> world" where
  "i2c_transfer abuf rbuf w =
     (let w1 = pop_fault (emit (I2c_Transfer abuf (length rbuf)) w) in
      if next_fault w then (- EREMOTEIO, rbuf, w1)
      else (case abuf of
              [hi, lo] \<Rightarrow> (2, load_bytes (be16 hi lo) (length rbuf) (dev_regs w1), w1)
            | _ \<Rightarrow> (- EREMOTEIO, rbuf, w1)))"

section \<open>Register access: \<open>ov13b10_write_reg\<close>, \<open>ov13b10_read_reg\<close>\<close>

text \<open>\<open>cpu_to_be32\<close>: the four bytes of a value, most significant first.\<close>

definition cpu_to_be32 :: "u32 \<Rightarrow> u8 list" where
  "cpu_to_be32 v = [ucast (drop_bit 24 v), ucast (drop_bit 16 v), ucast (drop_bit 8 v), ucast v]"

definition be32_to_cpu :: "u8 list \<Rightarrow> u32" where
  "be32_to_cpu bs =
     push_bit 24 (ucast (bs ! 0)) OR push_bit 16 (ucast (bs ! 1))
       OR push_bit 8 (ucast (bs ! 2)) OR ucast (bs ! 3)"

text \<open>The loop \<open>while (val_i < 4) buf[buf_i++] = val_p[val_i++];\<close>\<close>

function copy_val :: "u8 list \<Rightarrow> u8 list \<Rightarrow> nat \<Rightarrow> nat \<Rightarrow> u8 list" where
  "copy_val buf val_p buf_i val_i =
     (if val_i < 4 then copy_val (buf[buf_i := val_p ! val_i]) val_p (buf_i + 1) (val_i + 1)
      else buf)"
  by pat_completeness auto
termination
  by (relation "measure (\<lambda>(buf, val_p, buf_i, val_i). 4 - val_i)") auto

declare copy_val.simps [simp del]

definition ov13b10_write_reg :: "u16 \<Rightarrow> u32 \<Rightarrow> u32 \<Rightarrow> world \<Rightarrow> int \<times> world" where
  "ov13b10_write_reg reg len val w =
     (if len > 4 then (- EINVAL, w)
      else
        let buf0 = [ucast (drop_bit 8 reg), ucast (reg AND 0xff), 0, 0, 0, 0];
            buf = copy_val buf0 (cpu_to_be32 val) 2 (unat (4 - len));
            (n, w') = i2c_master_send (take (unat (len + 2)) buf) w
        in if n \<noteq> int (unat (len + 2)) then (- EIO, w') else (0, w'))"

text \<open>
  \<open>ov13b10_read_reg\<close>: the third argument is the content of \<open>*val\<close> before the call,
  the second component of the result its content afterwards.
\<close>

definition ov13b10_read_reg :: "u16 \<Rightarrow> u32 \<Rightarrow> u32 \<Rightarrow> world \<Rightarrow> int \<times> u32 \<times> world" where
  "ov13b10_read_reg reg len val0 w =
     (if len > 4 \<or> len = 0 then (- EINVAL, val0, w)
      else
        let data_be = [0, 0, 0, 0];
            reg_addr_be = [ucast (drop_bit 8 reg), ucast reg];
            (ret, rd, w') = i2c_transfer reg_addr_be (drop (unat (4 - len)) data_be) w
        in if ret \<noteq> 2 then (- EIO, val0, w')
           else (0, be32_to_cpu (take (unat (4 - len)) data_be @ rd), w'))"

section \<open>Register programs and the mode table\<close>

record regval =
  addr :: u16
  val :: u8

record ov13b10_mode =
  width :: u32
  height :: u32
  max_fps :: "nat \<times> nat"
  hts_def :: u32
  vts_def :: u32
  exp_def :: u32
  reg_list :: "regval list"

text \<open>The tables, entry for entry as in the source.\<close>

definition ov13b10_global_regs :: "regval list" where
  "ov13b10_global_regs = [
     \<lparr>addr = 0x0103, val = 0x01\<rparr>,
     \<lparr>addr = 0x0303, val = 0x04\<rparr>,
     \<lparr>addr = 0x0305, val = 0xaf\<rparr>,
     \<lparr>addr = 0x0321, val = 0x00\<rparr>,
     \<lparr>addr = 0x0323, val = 0x04\<rparr>,
     \<lparr>addr = 0x0324, val = 0x01\<rparr>,
     \<lparr>addr = 0x0325, val = 0xa4\<rparr>,
     \<lparr>addr = 0x0326, val = 0x81\<rparr>,
     \<lparr>addr = 0x0327, val = 0x04\<rparr>,
     \<lparr>addr = 0x3012, val = 0x07\<rparr>,
     \<lparr>addr = 0x3013, val = 0x32\<rparr>,
     \<lparr>addr = 0x3107, val = 0x23\<rparr>,
     \<lparr>addr = 0x3501, val = 0x0c\<rparr>,
     \<lparr>addr = 0x3502, val = 0x10\<rparr>,
     \<lparr>addr = 0x3504, val = 0x08\<rparr>,
     \<lparr>addr = 0x3508, val = 0x07\<rparr>,
     \<lparr>addr = 0x3509, val = 0xc0\<rparr>,
     \<lparr>addr = 0x3600, val = 0x16\<rparr>,
     \<lparr>addr = 0x3601, val = 0x54\<rparr>,
     \<lparr>addr = 0x3612, val = 0x4e\<rparr>,
     \<lparr>addr = 0x3620, val = 0x00\<rparr>,
     \<lparr>addr = 0x3621, val = 0x68\<rparr>,
     \<lparr>addr = 0x3622, val = 0x66\<rparr>,
     \<lparr>addr = 0x3623, val = 0x03\<rparr>,
     \<lparr>addr = 0x3662, val = 0x92\<rparr>,
     \<lparr>addr = 0x3666, val = 0xbb\<rparr>,
     \<lparr>addr = 0x3667, val = 0x44\<rparr>,
     \<lparr>addr = 0x366e, val = 0xff\<rparr>,
     \<lparr>addr = 0x366f, val = 0xf3\<rparr>,
     \<lparr>addr = 0x3675, val = 0x44\<rparr>,
     \<lparr>addr = 0x3676, val = 0x00\<rparr>,
     \<lparr>addr = 0x367f, val = 0xe9\<rparr>,
     \<lparr>addr = 0x3681, val = 0x32\<rparr>,
     \<lparr>addr = 0x3682, val = 0x1f\<rparr>,
     \<lparr>addr = 0x3683, val = 0x0b\<rparr>,
     \<lparr>addr = 0x3684, val = 0x0b\<rparr>,
     \<lparr>addr = 0x3704, val = 0x0f\<rparr>,
     \<lparr>addr = 0x3706, val = 0x40\<rparr>,
     \<lparr>addr = 0x3708, val = 0x3b\<rparr>,
     \<lparr>addr = 0x3709, val = 0x72\<rparr>,
     \<lparr>addr = 0x370b, val = 0xa2\<rparr>,
     \<lparr>addr = 0x3714, val = 0x24\<rparr>,
     \<lparr>addr = 0x371a, val = 0x3e\<rparr>,
     \<lparr>addr = 0x3725, val = 0x42\<rparr>,
     \<lparr>addr = 0x3739, val = 0x12\<rparr>,
     \<lparr>addr = 0x3767, val = 0x00\<rparr>,
     \<lparr>addr = 0x377a, val = 0x0d\<rparr>,
     \<lparr>addr = 0x3789, val = 0x18\<rparr>,
     \<lparr>addr = 0x3790, val = 0x40\<rparr>,
     \<lparr>addr = 0x3791, val = 0xa2\<rparr>,
     \<lparr>addr = 0x37c2, val = 0x04\<rparr>,
     \<lparr>addr = 0x37c3, val = 0xf1\<rparr>,
     \<lparr>addr = 0x37d9, val = 0x0c\<rparr>,
     \<lparr>addr = 0x37da, val = 0x02\<rparr>,
     \<lparr>addr = 0x37dc, val = 0x02\<rparr>,
     \<lparr>addr = 0x37e1, val = 0x04\<rparr>,
     \<lparr>addr = 0x37e2, val = 0x0a\<rparr>,
     \<lparr>addr = 0x3800, val = 0x00\<rparr>,
     \<lparr>addr = 0x3801, val = 0x00\<rparr>,
     \<lparr>addr = 0x3802, val = 0x00\<rparr>,
     \<lparr>addr = 0x3803, val = 0x08\<rparr>,
     \<lparr>addr = 0x3804, val = 0x10\<rparr>,
     \<lparr>addr = 0x3805, val = 0x8f\<rparr>,
     \<lparr>addr = 0x3806, val = 0x0c\<rparr>,
     \<lparr>addr = 0x3807, val = 0x47\<rparr>,
     \<lparr>addr = 0x3808, val = 0x10\<rparr>,
     \<lparr>addr = 0x3809, val = 0x70\<rparr>,
     \<lparr>addr = 0x380a, val = 0x0c\<rparr>,
     \<lparr>addr = 0x380b, val = 0x30\<rparr>,
     \<lparr>addr = 0x380c, val = 0x04\<rparr>,
     \<lparr>addr = 0x380d, val = 0x98\<rparr>,
     \<lparr>addr = 0x380e, val = 0x0c\<rparr>,
     \<lparr>addr = 0x380f, val = 0x7c\<rparr>,
     \<lparr>addr = 0x3811, val = 0x0f\<rparr>,
     \<lparr>addr = 0x3813, val = 0x09\<rparr>,
     \<lparr>addr = 0x3814, val = 0x01\<rparr>,
     \<lparr>addr = 0x3815, val = 0x01\<rparr>,
     \<lparr>addr = 0x3816, val = 0x01\<rparr>,
     \<lparr>addr = 0x3817, val = 0x01\<rparr>,
     \<lparr>addr = 0x381f, val = 0x08\<rparr>,
     \<lparr>addr = 0x3820, val = 0x88\<rparr>,
     \<lparr>addr = 0x3821, val = 0x00\<rparr>,
     \<lparr>addr = 0x3822, val = 0x14\<rparr>,
     \<lparr>addr = 0x382e, val = 0xe6\<rparr>,
     \<lparr>addr = 0x3c80, val = 0x00\<rparr>,
     \<lparr>addr = 0x3c87, val = 0x01\<rparr>,
     \<lparr>addr = 0x3c8c, val = 0x19\<rparr>,
     \<lparr>addr = 0x3c8d, val = 0x1c\<rparr>,
     \<lparr>addr = 0x3ca0, val = 0x00\<rparr>,
     \<lparr>addr = 0x3ca1, val = 0x00\<rparr>,
     \<lparr>addr = 0x3ca2, val = 0x00\<rparr>,
     \<lparr>addr = 0x3ca3, val = 0x00\<rparr>,
     \<lparr>addr = 0x3ca4, val = 0x50\<rparr>,
     \<lparr>addr = 0x3ca5, val = 0x11\<rparr>,
     \<lparr>addr = 0x3ca6, val = 0x01\<rparr>,
     \<lparr>addr = 0x3ca7, val = 0x00\<rparr>,
     \<lparr>addr = 0x3ca8, val = 0x00\<rparr>,
     \<lparr>addr = 0x4008, val = 0x02\<rparr>,
     \<lparr>addr = 0x4009, val = 0x0f\<rparr>,
     \<lparr>addr = 0x400a, val = 0x01\<rparr>,
     \<lparr>addr = 0x400b, val = 0x19\<rparr>,
     \<lparr>addr = 0x4011, val = 0x21\<rparr>,
     \<lparr>addr = 0x4017, val = 0x08\<rparr>,
     \<lparr>addr = 0x4019, val = 0x04\<rparr>,
     \<lparr>addr = 0x401a, val = 0x58\<rparr>,
     \<lparr>addr = 0x4032, val = 0x1e\<rparr>,
     \<lparr>addr = 0x4050, val = 0x02\<rparr>,
     \<lparr>addr = 0x4051, val = 0x09\<rparr>,
     \<lparr>addr = 0x405e, val = 0x00\<rparr>,
     \<lparr>addr = 0x4066, val = 0x02\<rparr>,
     \<lparr>addr = 0x4501, val = 0x00\<rparr>,
     \<lparr>addr = 0x4502, val = 0x10\<rparr>,
     \<lparr>addr = 0x4505, val = 0x00\<rparr>,
     \<lparr>addr = 0x4800, val = 0x64\<rparr>,
     \<lparr>addr = 0x481b, val = 0x3e\<rparr>,
     \<lparr>addr = 0x481f, val = 0x30\<rparr>,
     \<lparr>addr = 0x4825, val = 0x34\<rparr>,
     \<lparr>addr = 0x4837, val = 0x0e\<rparr>,
     \<lparr>addr = 0x484b, val = 0x01\<rparr>,
     \<lparr>addr = 0x4883, val = 0x02\<rparr>,
     \<lparr>addr = 0x5000, val = 0xff\<rparr>,
     \<lparr>addr = 0x5001, val = 0x0f\<rparr>,
     \<lparr>addr = 0x5045, val = 0x20\<rparr>,
     \<lparr>addr = 0x5046, val = 0x20\<rparr>,
     \<lparr>addr = 0x5047, val = 0xa4\<rparr>,
     \<lparr>addr = 0x5048, val = 0x20\<rparr>,
     \<lparr>addr = 0x5049, val = 0xa4\<rparr>,
     \<lparr>addr = 0x0100, val = 0x01\<rparr>]"

definition mode_4208x3120_regs :: "regval list" where
  "mode_4208x3120_regs = [
     \<lparr>addr = 0x0305, val = 0xaf\<rparr>,
     \<lparr>addr = 0x3501, val = 0x0c\<rparr>,
     \<lparr>addr = 0x3662, val = 0x92\<rparr>,
     \<lparr>addr = 0x3714, val = 0x24\<rparr>,
     \<lparr>addr = 0x3739, val = 0x12\<rparr>,
     \<lparr>addr = 0x37c2, val = 0x04\<rparr>,
     \<lparr>addr = 0x37d9, val = 0x0c\<rparr>,
     \<lparr>addr = 0x37e2, val = 0x0a\<rparr>,
     \<lparr>addr = 0x3800, val = 0x00\<rparr>,
     \<lparr>addr = 0x3801, val = 0x00\<rparr>,
     \<lparr>addr = 0x3802, val = 0x00\<rparr>,
     \<lparr>addr = 0x3803, val = 0x08\<rparr>,
     \<lparr>addr = 0x3804, val = 0x10\<rparr>,
     \<lparr>addr = 0x3805, val = 0x8f\<rparr>,
     \<lparr>addr = 0x3806, val = 0x0c\<rparr>,
     \<lparr>addr = 0x3807, val = 0x47\<rparr>,
     \<lparr>addr = 0x3808, val = 0x10\<rparr>,
     \<lparr>addr = 0x3809, val = 0x70\<rparr>,
     \<lparr>addr = 0x380a, val = 0x0c\<rparr>,
     \<lparr>addr = 0x380b, val = 0x30\<rparr>,
     \<lparr>addr = 0x380c, val = 0x04\<rparr>,
     \<lparr>addr = 0x380d, val = 0x98\<rparr>,
     \<lparr>addr = 0x380e, val = 0x0c\<rparr>,
     \<lparr>addr = 0x380f, val = 0x7c\<rparr>,
     \<lparr>addr = 0x3810, val = 0x00\<rparr>,
     \<lparr>addr = 0x3811, val = 0x0f\<rparr>,
     \<lparr>addr = 0x3812, val = 0x00\<rparr>,
     \<lparr>addr = 0x3813, val = 0x09\<rparr>,
     \<lparr>addr = 0x3814, val = 0x01\<rparr>,
     \<lparr>addr = 0x3816, val = 0x01\<rparr>,
     \<lparr>addr = 0x3820, val = 0x88\<rparr>,
     \<lparr>addr = 0x3c8c, val = 0x19\<rparr>,
     \<lparr>addr = 0x4008, val = 0x02\<rparr>,
     \<lparr>addr = 0x4009, val = 0x0f\<rparr>,
     \<lparr>addr = 0x4050, val = 0x02\<rparr>,
     \<lparr>addr = 0x4051, val = 0x09\<rparr>,
     \<lparr>addr = 0x4501, val = 0x00\<rparr>,
     \<lparr>addr = 0x4505, val = 0x00\<rparr>,
     \<lparr>addr = 0x4837, val = 0x0e\<rparr>,
     \<lparr>addr = 0x5000, val = 0xff\<rparr>,
     \<lparr>addr = 0x5001, val = 0x0f\<rparr>]"

definition mode_4160x3120_regs :: "regval list" where
  "mode_4160x3120_regs = [
     \<lparr>addr = 0x0305, val = 0xaf\<rparr>,
     \<lparr>addr = 0x3501, val = 0x0c\<rparr>,
     \<lparr>addr = 0x3662, val = 0x92\<rparr>,
     \<lparr>addr = 0x3714, val = 0x24\<rparr>,
     \<lparr>addr = 0x3739, val = 0x12\<rparr>,
     \<lparr>addr = 0x37c2, val = 0x04\<rparr>,
     \<lparr>addr = 0x37d9, val = 0x0c\<rparr>,
     \<lparr>addr = 0x37e2, val = 0x0a\<rparr>,
     \<lparr>addr = 0x3800, val = 0x00\<rparr>,
     \<lparr>addr = 0x3801, val = 0x00\<rparr>,
     \<lparr>addr = 0x3802, val = 0x00\<rparr>,
     \<lparr>addr = 0x3803, val = 0x08\<rparr>,
     \<lparr>addr = 0x3804, val = 0x10\<rparr>,
     \<lparr>addr = 0x3805, val = 0x8f\<rparr>,
     \<lparr>addr = 0x3806, val = 0x0c\<rparr>,
     \<lparr>addr = 0x3807, val = 0x47\<rparr>,
     \<lparr>addr = 0x3808, val = 0x10\<rparr>,
     \<lparr>addr = 0x3809, val = 0x40\<rparr>,
     \<lparr>addr = 0x380a, val = 0x0c\<rparr>,
     \<lparr>addr = 0x380b, val = 0x30\<rparr>,
     \<lparr>addr = 0x380c, val = 0x04\<rparr>,
     \<lparr>addr = 0x380d, val = 0x98\<rparr>,
     \<lparr>addr = 0x380e, val = 0x0c\<rparr>,
     \<lparr>addr = 0x380f, val = 0x7c\<rparr>,
     \<lparr>addr = 0x3810, val = 0x00\<rparr>,
     \<lparr>addr = 0x3811, val = 0x27\<rparr>,
     \<lparr>addr = 0x3812, val = 0x00\<rparr>,
     \<lparr>addr = 0x3813, val = 0x09\<rparr>,
     \<lparr>addr = 0x3814, val = 0x01\<rparr>,
     \<lparr>addr = 0x3816, val = 0x01\<rparr>,
     \<lparr>addr = 0x3820, val = 0x88\<rparr>,
     \<lparr>addr = 0x3c8c, val = 0x19\<rparr>,
     \<lparr>addr = 0x4008, val = 0x02\<rparr>,
     \<lparr>addr = 0x4009, val = 0x0f\<rparr>,
     \<lparr>addr = 0x4050, val = 0x02\<rparr>,
     \<lparr>addr = 0x4051, val = 0x09\<rparr>,
     \<lparr>addr = 0x4501, val = 0x00\<rparr>,
     \<lparr>addr = 0x4505, val = 0x00\<rparr>,
     \<lparr>addr = 0x4837, val = 0x0e\<rparr>,
     \<lparr>addr = 0x5000, val = 0xff\<rparr>,
     \<lparr>addr = 0x5001, val = 0x0f\<rparr>]"

definition mode_4160x2340_regs :: "regval list" where
  "mode_4160x2340_regs = [
     \<lparr>addr = 0x0305, val = 0xaf\<rparr>,
     \<lparr>addr = 0x3501, val = 0x0c\<rparr>,
     \<lparr>addr = 0x3662, val = 0x92\<rparr>,
     \<lparr>addr = 0x3714, val = 0x24\<rparr>,
     \<lparr>addr = 0x3739, val = 0x12\<rparr>,
     \<lparr>addr = 0x37c2, val = 0x04\<rparr>,
     \<lparr>addr = 0x37d9, val = 0x0c\<rparr>,
     \<lparr>addr = 0x37e2, val = 0x0a\<rparr>,
     \<lparr>addr = 0x3800, val = 0x00\<rparr>,
     \<lparr>addr = 0x3801, val = 0x00\<rparr>,
     \<lparr>addr = 0x3802, val = 0x00\<rparr>,
     \<lparr>addr = 0x3803, val = 0x08\<rparr>,
     \<lparr>addr = 0x3804, val = 0x10\<rparr>,
     \<lparr>addr = 0x3805, val = 0x8f\<rparr>,
     \<lparr>addr = 0x3806, val = 0x0c\<rparr>,
     \<lparr>addr = 0x3807, val = 0x47\<rparr>,
     \<lparr>addr = 0x3808, val = 0x10\<rparr>,
     \<lparr>addr = 0x3809, val = 0x40\<rparr>,
     \<lparr>addr = 0x380a, val = 0x09\<rparr>,
     \<lparr>addr = 0x380b, val = 0x24\<rparr>,
     \<lparr>addr = 0x380c, val = 0x04\<rparr>,
     \<lparr>addr = 0x380d, val = 0x98\<rparr>,
     \<lparr>addr = 0x380e, val = 0x0c\<rparr>,
     \<lparr>addr = 0x380f, val = 0x7c\<rparr>,
     \<lparr>addr = 0x3810, val = 0x00\<rparr>,
     \<lparr>addr = 0x3811, val = 0x27\<rparr>,
     \<lparr>addr = 0x3812, val = 0x01\<rparr>,
     \<lparr>addr = 0x3813, val = 0x8f\<rparr>,
     \<lparr>addr = 0x3814, val = 0x01\<rparr>,
     \<lparr>addr = 0x3816, val = 0x01\<rparr>,
     \<lparr>addr = 0x3820, val = 0x88\<rparr>,
     \<lparr>addr = 0x3c8c, val = 0x19\<rparr>,
     \<lparr>addr = 0x4008, val = 0x02\<rparr>,
     \<lparr>addr = 0x4009, val = 0x0f\<rparr>,
     \<lparr>addr = 0x4050, val = 0x02\<rparr>,
     \<lparr>addr = 0x4051, val = 0x09\<rparr>,
     \<lparr>addr = 0x4501, val = 0x00\<rparr>,
     \<lparr>addr = 0x4505, val = 0x00\<rparr>,
     \<lparr>addr = 0x4837, val = 0x0e\<rparr>,
     \<lparr>addr = 0x5000, val = 0xff\<rparr>,
     \<lparr>addr = 0x5001, val = 0x0f\<rparr>]"

definition mode_2104x1560_regs :: "regval list" where
  "mode_2104x1560_regs = [
     \<lparr>addr = 0x0305, val = 0xaf\<rparr>,
     \<lparr>addr = 0x3501, val = 0x06\<rparr>,
     \<lparr>addr = 0x3662, val = 0x88\<rparr>,
     \<lparr>addr = 0x3714, val = 0x28\<rparr>,
     \<lparr>addr = 0x3739, val = 0x10\<rparr>,
     \<lparr>addr = 0x37c2, val = 0x14\<rparr>,
     \<lparr>addr = 0x37d9, val = 0x06\<rparr>,
     \<lparr>addr = 0x37e2, val = 0x0c\<rparr>,
     \<lparr>addr = 0x3800, val = 0x00\<rparr>,
     \<lparr>addr = 0x3801, val = 0x00\<rparr>,
     \<lparr>addr = 0x3802, val = 0x00\<rparr>,
     \<lparr>addr = 0x3803, val = 0x08\<rparr>,
     \<lparr>addr = 0x3804, val = 0x10\<rparr>,
     \<lparr>addr = 0x3805, val = 0x8f\<rparr>,
     \<lparr>addr = 0x3806, val = 0x0c\<rparr>,
     \<lparr>addr = 0x3807, val = 0x47\<rparr>,
     \<lparr>addr = 0x3808, val = 0x08\<rparr>,
     \<lparr>addr = 0x3809, val = 0x38\<rparr>,
     \<lparr>addr = 0x380a, val = 0x06\<rparr>,
     \<lparr>addr = 0x380b, val = 0x18\<rparr>,
     \<lparr>addr = 0x380c, val = 0x04\<rparr>,
     \<lparr>addr = 0x380d, val = 0x98\<rparr>,
     \<lparr>addr = 0x380e, val = 0x06\<rparr>,
     \<lparr>addr = 0x380f, val = 0x3e\<rparr>,
     \<lparr>addr = 0x3810, val = 0x00\<rparr>,
     \<lparr>addr = 0x3811, val = 0x07\<rparr>,
     \<lparr>addr = 0x3812, val = 0x00\<rparr>,
     \<lparr>addr = 0x3813, val = 0x05\<rparr>,
     \<lparr>addr = 0x3814, val = 0x03\<rparr>,
     \<lparr>addr = 0x3816, val = 0x03\<rparr>,
     \<lparr>addr = 0x3820, val = 0x8b\<rparr>,
     \<lparr>addr = 0x3c8c, val = 0x18\<rparr>,
     \<lparr>addr = 0x4008, val = 0x00\<rparr>,
     \<lparr>addr = 0x4009, val = 0x05\<rparr>,
     \<lparr>addr = 0x4050, val = 0x00\<rparr>,
     \<lparr>addr = 0x4051, val = 0x05\<rparr>,
     \<lparr>addr = 0x4501, val = 0x08\<rparr>,
     \<lparr>addr = 0x4505, val = 0x00\<rparr>,
     \<lparr>addr = 0x4837, val = 0x0e\<rparr>,
     \<lparr>addr = 0x5000, val = 0xfd\<rparr>,
     \<lparr>addr = 0x5001, val = 0x0d\<rparr>]"

definition mode_2080x1170_regs :: "regval list" where
  "mode_2080x1170_regs = [
     \<lparr>addr = 0x0305, val = 0xaf\<rparr>,
     \<lparr>addr = 0x3501, val = 0x06\<rparr>,
     \<lparr>addr = 0x3662, val = 0x88\<rparr>,
     \<lparr>addr = 0x3714, val = 0x28\<rparr>,
     \<lparr>addr = 0x3739, val = 0x10\<rparr>,
     \<lparr>addr = 0x37c2, val = 0x14\<rparr>,
     \<lparr>addr = 0x37d9, val = 0x06\<rparr>,
     \<lparr>addr = 0x37e2, val = 0x0c\<rparr>,
     \<lparr>addr = 0x3800, val = 0x00\<rparr>,
     \<lparr>addr = 0x3801, val = 0x00\<rparr>,
     \<lparr>addr = 0x3802, val = 0x00\<rparr>,
     \<lparr>addr = 0x3803, val = 0x08\<rparr>,
     \<lparr>addr = 0x3804, val = 0x10\<rparr>,
     \<lparr>addr = 0x3805, val = 0x8f\<rparr>,
     \<lparr>addr = 0x3806, val = 0x0c\<rparr>,
     \<lparr>addr = 0x3807, val = 0x47\<rparr>,
     \<lparr>addr = 0x3808, val = 0x08\<rparr>,
     \<lparr>addr = 0x3809, val = 0x20\<rparr>,
     \<lparr>addr = 0x380a, val = 0x04\<rparr>,
     \<lparr>addr = 0x380b, val = 0x92\<rparr>,
     \<lparr>addr = 0x380c, val = 0x04\<rparr>,
     \<lparr>addr = 0x380d, val = 0x98\<rparr>,
     \<lparr>addr = 0x380e, val = 0x06\<rparr>,
     \<lparr>addr = 0x380f, val = 0x3e\<rparr>,
     \<lparr>addr = 0x3810, val = 0x00\<rparr>,
     \<lparr>addr = 0x3811, val = 0x13\<rparr>,
     \<lparr>addr = 0x3812, val = 0x00\<rparr>,
     \<lparr>addr = 0x3813, val = 0xc9\<rparr>,
     \<lparr>addr = 0x3814, val = 0x03\<rparr>,
     \<lparr>addr = 0x3816, val = 0x03\<rparr>,
     \<lparr>addr = 0x3820, val = 0x8b\<rparr>,
     \<lparr>addr = 0x3c8c, val = 0x18\<rparr>,
     \<lparr>addr = 0x4008, val = 0x00\<rparr>,
     \<lparr>addr = 0x4009, val = 0x05\<rparr>,
     \<lparr>addr = 0x4050, val = 0x00\<rparr>,
     \<lparr>addr = 0x4051, val = 0x05\<rparr>,
     \<lparr>addr = 0x4501, val = 0x08\<rparr>,
     \<lparr>addr = 0x4505, val = 0x00\<rparr>,
     \<lparr>addr = 0x4837, val = 0x0e\<rparr>,
     \<lparr>addr = 0x5000, val = 0xfd\<rparr>,
     \<lparr>addr = 0x5001, val = 0x0d\<rparr>]"

definition supported_modes :: "ov13b10_mode list" where
  "supported_modes = [
     \<lparr>width = 4208, height = 3120, max_fps = (10000, 300000),
      hts_def = 0x0498, vts_def = 0x0c7c, exp_def = 0x0c00,
      reg_list = mode_4208x3120_regs\<rparr>,
     \<lparr>width = 4160, height = 3120, max_fps = (10000, 300000),
      hts_def = 0x0498, vts_def = 0x0c7c, exp_def = 0x0c00,
      reg_list = mode_4160x3120_regs\<rparr>,
     \<lparr>width = 4160, height = 2340, max_fps = (10000, 300000),
      hts_def = 0x0498, vts_def = 0x0c7c, exp_def = 0x0c00,
      reg_list = mode_4160x2340_regs\<rparr>,
     \<lparr>width = 2104, height = 1560, max_fps = (10000, 600000),
      hts_def = 0x0498, vts_def = 0x0c7c, exp_def = 0x0c00,
      reg_list = mode_2104x1560_regs\<rparr>,
     \<lparr>width = 2080, height = 1170, max_fps = (10000, 600000),
      hts_def = 0x0498, vts_def = 0x0c7c, exp_def = 0x0c00,
      reg_list = mode_2080x1170_regs\<rparr>]"

section \<open>\<open>ov13b10_write_array\<close>\<close>

text \<open>
  A C function either returns a value or, when it reads \<open>regs[i]\<close> past the last
  element of the table it was given, has no defined behaviour: \<open>Fault\<close>.
\<close>

datatype 'a outcome = Ret 'a | Fault

text \<open>
  The loop \<open>for (i = 0; ret == 0 && regs[i].addr != REG_NULL; i++)\<close>; \<open>regs\<close> holds
  the elements of the array the pointer refers to.
\<close>

function write_array_loop :: "regval list \<Rightarrow> nat \<Rightarrow> int \<Rightarrow> world \<Rightarrow> int outcome \<times> world" where
  "write_array_loop regs i ret w =
     (if ret \<noteq> 0 then (Ret ret, w)
      else if length regs \<le> i then (Fault, w)
      else if addr (regs ! i) = REG_NULL then (Ret ret, w)
      else
        case ov13b10_write_reg (addr (regs ! i)) OV13B10_REG_VALUE_08BIT
               (ucast (val (regs ! i))) w of
          (ret', w') \<Rightarrow> write_array_loop regs (i + 1) ret' w')"
  by pat_completeness auto
termination
  by (relation "measure (\<lambda>(regs, i, ret, w). length regs - i)") auto

declare write_array_loop.simps [simp del]

definition ov13b10_write_array :: "regval list \<Rightarrow> world \<Rightarrow> int outcome \<times> world" where
  "ov13b10_write_array regs w = write_array_loop regs 0 0 w"

section \<open>Best-fit mode selection\<close>

record v4l2_mbus_framefmt =
  fmt_width :: u32
  fmt_height :: u32

text \<open>
  Modelled from the spec: the kernel macro \<open>abs()\<close> (include/linux/math.h, not part of
  this file), the absolute value of its operand. The operand here is a 32-bit
  difference, which the macro reads as a signed \<open>int\<close>; negating the most negative
  value wraps around.
\<close>

definition abs_s32 :: "u32 \<Rightarrow> u32" where
  "abs_s32 x = (if sint x < 0 then - x else x)"

text \<open>The result is a C \<open>int\<close>, kept as its 32 bits and read with \<open>sint\<close>.\<close>

definition ov13b10_get_reso_dist :: "ov13b10_mode \<Rightarrow> v4l2_mbus_framefmt \<Rightarrow> u32" where
  "ov13b10_get_reso_dist mode framefmt =
     abs_s32 (width mode - fmt_width framefmt) + abs_s32 (height mode - fmt_height framefmt)"

function best_fit_loop :: "v4l2_mbus_framefmt \<Rightarrow> nat \<Rightarrow> nat \<Rightarrow> u32 \<Rightarrow> nat" where
  "best_fit_loop framefmt i cur_best_fit cur_best_fit_dist =
     (if i < length supported_modes then
        let dist = ov13b10_get_reso_dist (supported_modes ! i) framefmt in
        if cur_best_fit_dist = - 1 \<or> sint dist < sint cur_best_fit_dist
        then best_fit_loop framefmt (i + 1) i dist
        else best_fit_loop framefmt (i + 1) cur_best_fit cur_best_fit_dist
      else cur_best_fit)"
  by pat_completeness auto
termination
  by (relation "measure (\<lambda>(framefmt, i, cur, d). length supported_modes - i)") auto

declare best_fit_loop.simps [simp del]

definition ov13b10_find_best_fit :: "v4l2_mbus_framefmt \<Rightarrow> ov13b10_mode" where
  "ov13b10_find_best_fit framefmt = supported_modes ! best_fit_loop framefmt 0 0 (- 1)"

section \<open>Runtime PM, clock, regulator and pin-control calls\<close>

text \<open>
  Modelled from the spec: the availability/reference-count gate of the host
  power-management layer (\<open>pm_runtime_*\<close>, not part of this file). A usage counter;
  \<open>pm_runtime_get_if_in_use\<close> takes a reference and returns 1 only while the device
  is referenced, \<open>pm_runtime_get_sync\<close> takes a reference and reports the scripted
  result of resuming the device.
\<close>

definition pm_runtime_get_sync :: "world \<Rightarrow> int \<times> world" where
  "pm_runtime_get_sync w =
     (pm_get_sync_ret w, emit Pm_Runtime_Get_Sync (w\<lparr>pm_usage := pm_usage w + 1\<rparr>))"

definition pm_runtime_put :: "world \<Rightarrow> world" where
  "pm_runtime_put w = emit Pm_Runtime_Put (w\<lparr>pm_usage := pm_usage w - 1\<rparr>)"

definition pm_runtime_put_noidle :: "world \<Rightarrow> world" where
  "pm_runtime_put_noidle w = emit Pm_Runtime_Put_Noidle (w\<lparr>pm_usage := pm_usage w - 1\<rparr>)"

definition pm_runtime_get_if_in_use :: "world \<Rightarrow> int \<times> world" where
  "pm_runtime_get_if_in_use w =
     (if 0 < pm_usage w
      then (1, emit Pm_Runtime_Get_If_In_Use (w\<lparr>pm_usage := pm_usage w + 1\<rparr>))
      else (0, emit Pm_Runtime_Get_If_In_Use w))"

definition gpiod_set_value_cansleep :: "gpio \<Rightarrow> bool \<Rightarrow> world \<Rightarrow> world" where
  "gpiod_set_value_cansleep g v w = emit (Gpiod_Set_Value g v) w"

definition usleep_range :: "nat \<Rightarrow> nat \<Rightarrow> world \<Rightarrow> world" where
  "usleep_range lo hi w = emit (Usleep_Range lo hi) w"

definition pinctrl_select_state :: "pins \<Rightarrow> world \<Rightarrow> int \<times> world" where
  "pinctrl_select_state p w = (pinctrl_ret w, emit (Pinctrl_Select_State p) w)"

definition clk_set_rate :: "nat \<Rightarrow> world \<Rightarrow> int \<times> world" where
  "clk_set_rate r w = (clk_set_rate_ret w, emit (Clk_Set_Rate r) w)"

definition clk_get_rate :: "world \<Rightarrow> nat \<times> world" where
  "clk_get_rate w = (clk_rate w, emit Clk_Get_Rate w)"

definition clk_prepare_enable :: "world \<Rightarrow> int \<times> world" where
  "clk_prepare_enable w = (clk_enable_ret w, emit Clk_Prepare_Enable w)"

definition clk_disable_unprepare :: "world \<Rightarrow> world" where
  "clk_disable_unprepare w = emit Clk_Disable_Unprepare w"

definition regulator_bulk_enable :: "world \<Rightarrow> int \<times> world" where
  "regulator_bulk_enable w = (regulator_enable_ret w, emit Regulator_Bulk_Enable w)"

section \<open>The driver instance\<close>

text \<open>
  A control as the driver sees it: its range and \<open>ctrl->val\<close> (a signed 32-bit value,
  kept as its bits).
\<close>

record v4l2_ctrl =
  minimum :: int
  maximum :: int
  step :: int
  default_value :: int
  ctrl_val :: u32

text \<open>
  \<open>struct ov13b10\<close>. The GPIO and pin-state fields hold whether the handle is usable
  (\<open>!IS_ERR(...)\<close>, \<open>!IS_ERR_OR_NULL(...)\<close>); \<open>cur_mode\<close> holds the mode pointed to.
\<close>

record ov13b10 =
  power_gpio :: bool
  reset_gpio :: bool
  pwdn_gpio :: bool
  pins_default :: bool
  pins_sleep :: bool
  exposure :: v4l2_ctrl
  anal_gain :: v4l2_ctrl
  hblank :: v4l2_ctrl
  vblank :: v4l2_ctrl
  test_pattern :: v4l2_ctrl
  streaming :: bool
  power_on :: bool
  cur_mode :: ov13b10_mode

text \<open>
  Modelled from the spec: \<open>v4l2_ctrl_new_std\<close> and \<open>__v4l2_ctrl_modify_range\<close> of the
  V4L2 control framework (not part of this file). A new control starts at its default;
  modifying the range stores the new minimum, maximum, step and default.
\<close>

definition v4l2_ctrl_new_std :: "int \<Rightarrow> int \<Rightarrow> int \<Rightarrow> int \<Rightarrow> v4l2_ctrl" where
  "v4l2_ctrl_new_std mn mx st df =
     \<lparr>minimum = mn, maximum = mx, step = st, default_value = df, ctrl_val = word_of_int df\<rparr>"

definition v4l2_ctrl_modify_range ::
  "ctrl_id \<Rightarrow> v4l2_ctrl \<Rightarrow> int \<Rightarrow> int \<Rightarrow> int \<Rightarrow> int \<Rightarrow> world \<Rightarrow> v4l2_ctrl \<times> world" where
  "v4l2_ctrl_modify_range cid c mn mx st df w =
     (c\<lparr>minimum := mn, maximum := mx, step := st, default_value := df\<rparr>,
      emit (Ctrl_Modify_Range cid mn mx st df) w)"

text \<open>
  The controls that \<open>ov13b10_initialize_controls\<close> creates for \<open>cur_mode\<close>. The range
  expressions are computed in \<open>u32\<close> and widened to the framework's \<open>s64\<close>.
\<close>

definition ov13b10_initialize_controls :: "ov13b10 \<Rightarrow> ov13b10" where
  "ov13b10_initialize_controls s =
     (let mode = cur_mode s;
          h_blank = uint (hts_def mode - width mode);
          vblank_def = uint (vts_def mode - height mode);
          exposure_max = uint (vts_def mode - 16)
      in s\<lparr>hblank := v4l2_ctrl_new_std h_blank h_blank 1 h_blank,
            vblank := v4l2_ctrl_new_std vblank_def (uint (OV13B10_VTS_MAX - height mode)) 1
                        vblank_def,
            exposure := v4l2_ctrl_new_std 4 exposure_max 1 (uint (exp_def mode)),
            anal_gain := v4l2_ctrl_new_std 0x80 0x07c0 1 0x80,
            test_pattern := v4l2_ctrl_new_std 0 4 1 0\<rparr>)"

section \<open>Control translation: \<open>ov13b10_set_ctrl\<close>\<close>

definition ov13b10_enable_test_pattern :: "u32 \<Rightarrow> world \<Rightarrow> int \<times> world" where
  "ov13b10_enable_test_pattern pattern w =
     (let v = (if pattern \<noteq> 0 then (pattern - 1) OR OV13B10_TEST_PATTERN_ENABLE
               else OV13B10_TEST_PATTERN_DISABLE)
      in ov13b10_write_reg OV13B10_REG_TEST_PATTERN OV13B10_REG_VALUE_08BIT v w)"

text \<open>The first \<open>switch\<close>: only vertical blank touches another control's range.\<close>

definition set_ctrl_range :: "ctrl_id \<Rightarrow> u32 \<Rightarrow> ov13b10 \<Rightarrow> world \<Rightarrow> ov13b10 \<times> world" where
  "set_ctrl_range cid v s w =
     (case cid of
        V4L2_CID_VBLANK \<Rightarrow>
          (let mx = uint (height (cur_mode s) + v - 16);
               (e, w') = v4l2_ctrl_modify_range V4L2_CID_EXPOSURE (exposure s)
                           (minimum (exposure s)) mx (step (exposure s))
                           (default_value (exposure s)) w
           in (s\<lparr>exposure := e\<rparr>, w'))
      | _ \<Rightarrow> (s, w))"

text \<open>The second \<open>switch\<close>: the register writes of each control.\<close>

definition set_ctrl_write :: "ctrl_id \<Rightarrow> u32 \<Rightarrow> ov13b10 \<Rightarrow> world \<Rightarrow> int \<times> world" where
  "set_ctrl_write cid v s w =
     (case cid of
        V4L2_CID_EXPOSURE \<Rightarrow>
          ov13b10_write_reg OV13B10_REG_EXPOSURE OV13B10_REG_VALUE_24BIT v w
      | V4L2_CID_ANALOGUE_GAIN \<Rightarrow>
          (let (ret, w1) = ov13b10_write_reg OV13B10_REG_GAIN_H OV13B10_REG_VALUE_08BIT
                             (signed_drop_bit OV13B10_GAIN_H_SHIFT v AND OV13B10_GAIN_H_MASK) w;
               (ret', w2) = ov13b10_write_reg OV13B10_REG_GAIN_L OV13B10_REG_VALUE_08BIT
                              (v AND OV13B10_GAIN_L_MASK) w1
           in (ret OR ret', w2))
      | V4L2_CID_VBLANK \<Rightarrow>
          ov13b10_write_reg OV13B10_REG_VTS OV13B10_REG_VALUE_16BIT (v + height (cur_mode s)) w
      | V4L2_CID_TEST_PATTERN \<Rightarrow> ov13b10_enable_test_pattern v w
      | _ \<Rightarrow> (0, w))"

text \<open>\<open>ov13b10_set_ctrl\<close> for the control \<open>cid\<close> with \<open>ctrl->val = v\<close>.\<close>

definition ov13b10_set_ctrl :: "ctrl_id \<Rightarrow> u32 \<Rightarrow> ov13b10 \<Rightarrow> world \<Rightarrow> int \<times> ov13b10 \<times> world" where
  "ov13b10_set_ctrl cid v s w =
     (let (s1, w1) = set_ctrl_range cid v s w;
          (in_use, w2) = pm_runtime_get_if_in_use w1
      in if in_use = 0 then (0, s1, w2)
         else
           let (ret, w3) = set_ctrl_write cid v s1 w2
           in (ret, s1, pm_runtime_put w3))"

section \<open>Streaming: \<open>__ov13b10_start_stream\<close>, \<open>__ov13b10_stop_stream\<close>, \<open>ov13b10_s_stream\<close>\<close>

definition ctrl_of :: "ctrl_id \<Rightarrow> ov13b10 \<Rightarrow> v4l2_ctrl" where
  "ctrl_of cid s =
     (case cid of
        V4L2_CID_EXPOSURE \<Rightarrow> exposure s
      | V4L2_CID_ANALOGUE_GAIN \<Rightarrow> anal_gain s
      | V4L2_CID_VBLANK \<Rightarrow> vblank s
      | V4L2_CID_TEST_PATTERN \<Rightarrow> test_pattern s
      | V4L2_CID_HBLANK \<Rightarrow> hblank s)"

text \<open>
  Modelled from the spec: \<open>v4l2_ctrl_handler_setup\<close> of the V4L2 control framework (not
  part of this file), the setup pass that re-applies every currently held control value
  through the driver's \<open>s_ctrl\<close> operation and stops at the first error. The controls
  that carry \<open>ov13b10_ctrl_ops\<close> are visited in the order
  \<open>ov13b10_initialize_controls\<close> creates them.
\<close>

fun ctrl_setup_loop :: "ctrl_id list \<Rightarrow> ov13b10 \<Rightarrow> world \<Rightarrow> int \<times> ov13b10 \<times> world" where
  "ctrl_setup_loop [] s w = (0, s, w)"
| "ctrl_setup_loop (c # cs) s w =
     (case ov13b10_set_ctrl c (ctrl_val (ctrl_of c s)) s w of
        (ret, s', w') \<Rightarrow> if ret \<noteq> 0 then (ret, s', w') else ctrl_setup_loop cs s' w')"

definition v4l2_ctrl_handler_setup :: "ov13b10 \<Rightarrow> world \<Rightarrow> int \<times> ov13b10 \<times> world" where
  "v4l2_ctrl_handler_setup s w =
     ctrl_setup_loop
       [V4L2_CID_VBLANK, V4L2_CID_EXPOSURE, V4L2_CID_ANALOGUE_GAIN, V4L2_CID_TEST_PATTERN] s w"

text \<open>\<open>__ov13b10_start_stream\<close>\<close>

definition ov13b10_start_stream :: "ov13b10 \<Rightarrow> world \<Rightarrow> int outcome \<times> ov13b10 \<times> world" where
  "ov13b10_start_stream s w =
     (case ov13b10_write_array (reg_list (cur_mode s)) w of
        (Fault, w1) \<Rightarrow> (Fault, s, w1)
      | (Ret ret, w1) \<Rightarrow>
          if ret \<noteq> 0 then (Ret ret, s, w1)
          else
            let (ret2, s2, w2) = v4l2_ctrl_handler_setup s (emit Mutex_Unlock w1);
                w3 = emit Mutex_Lock w2
            in if ret2 \<noteq> 0 then (Ret ret2, s2, w3)
               else
                 let (ret3, w4) = ov13b10_write_reg OV13B10_REG_CTRL_MODE
                                    OV13B10_REG_VALUE_08BIT OV13B10_MODE_STREAMING w3
                 in (Ret ret3, s2, w4))"

text \<open>\<open>__ov13b10_stop_stream\<close>\<close>

definition ov13b10_stop_stream :: "world \<Rightarrow> int \<times> world" where
  "ov13b10_stop_stream w =
     ov13b10_write_reg OV13B10_REG_CTRL_MODE OV13B10_REG_VALUE_08BIT OV13B10_MODE_SW_STANDBY w"

definition ov13b10_s_stream :: "int \<Rightarrow> ov13b10 \<Rightarrow> world \<Rightarrow> int outcome \<times> ov13b10 \<times> world" where
  "ov13b10_s_stream on s w =
     (let w0 = emit Mutex_Lock w;
          on' = (on \<noteq> 0)
      in if on' = streaming s then (Ret 0, s, emit Mutex_Unlock w0)
         else if on' then
           (let (ret, w1) = pm_runtime_get_sync w0
            in if ret < 0 then (Ret ret, s, emit Mutex_Unlock (pm_runtime_put_noidle w1))
               else
                 case ov13b10_start_stream s w1 of
                   (Fault, s2, w2) \<Rightarrow> (Fault, s2, w2)
                 | (Ret ret', s2, w2) \<Rightarrow>
                     if ret' \<noteq> 0 then (Ret ret', s2, emit Mutex_Unlock (pm_runtime_put w2))
                     else (Ret ret', s2\<lparr>streaming := on'\<rparr>, emit Mutex_Unlock w2))
         else
           (let (ignored, w1) = ov13b10_stop_stream w0;
                w2 = pm_runtime_put w1
            in (Ret 0, s\<lparr>streaming := on'\<rparr>, emit Mutex_Unlock w2)))"

section \<open>Power: \<open>ov13b10_s_power\<close>, \<open>__ov13b10_power_on\<close>\<close>

definition ov13b10_s_power :: "int \<Rightarrow> ov13b10 \<Rightarrow> world \<Rightarrow> int outcome \<times> ov13b10 \<times> world" where
  "ov13b10_s_power on s w =
     (let w0 = emit Mutex_Lock w
      in if power_on s = (on \<noteq> 0) then (Ret 0, s, emit Mutex_Unlock w0)
         else if on \<noteq> 0 then
           (let (ret, w1) = pm_runtime_get_sync w0
            in if ret < 0 then (Ret ret, s, emit Mutex_Unlock (pm_runtime_put_noidle w1))
               else
                 case ov13b10_write_array ov13b10_global_regs w1 of
                   (Fault, w2) \<Rightarrow> (Fault, s, w2)
                 | (Ret ret', w2) \<Rightarrow>
                     if ret' \<noteq> 0 then (Ret ret', s, emit Mutex_Unlock (pm_runtime_put_noidle w2))
                     else (Ret ret', s\<lparr>power_on := True\<rparr>, emit Mutex_Unlock w2))
         else (Ret 0, s\<lparr>power_on := False\<rparr>, emit Mutex_Unlock (pm_runtime_put w0)))"

text \<open>
  \<open>DIV_ROUND_UP(cycles, OV13B10_XVCLK_FREQ / 1000 / 1000)\<close>, that is
  \<open>(cycles + 24 - 1) / 24\<close>, computed in \<open>u32\<close>.
\<close>

definition ov13b10_cal_delay :: "u32 \<Rightarrow> u32" where
  "ov13b10_cal_delay cycles =
     (let d = word_of_nat (OV13B10_XVCLK_FREQ div 1000 div 1000) in (cycles + d - 1) div d)"

text \<open>
  \<open>__ov13b10_power_on\<close>. The results of \<open>pinctrl_select_state\<close> and \<open>clk_set_rate\<close> and
  the rate read back only produce log messages.
\<close>

definition ov13b10_power_on :: "ov13b10 \<Rightarrow> world \<Rightarrow> int \<times> world" where
  "ov13b10_power_on s w =
     (let w1 = (if power_gpio s then gpiod_set_value_cansleep Power_Gpio True w else w);
          w2 = usleep_range 1000 2000 w1;
          w3 = (if pins_default s then snd (pinctrl_select_state Pins_Default w2) else w2);
          w4 = snd (clk_set_rate OV13B10_XVCLK_FREQ w3);
          w5 = snd (clk_get_rate w4);
          (ret, w6) = clk_prepare_enable w5
      in if ret < 0 then (ret, w6)
         else
           let w7 = (if reset_gpio s then gpiod_set_value_cansleep Reset_Gpio False w6 else w6);
               (ret', w8) = regulator_bulk_enable w7
           in if ret' < 0 then (ret', clk_disable_unprepare w8)
              else
                let w9 = (if reset_gpio s then gpiod_set_value_cansleep Reset_Gpio True w8 else w8);
                    w10 = usleep_range 500 1000 w9;
                    w11 = (if pwdn_gpio s then gpiod_set_value_cansleep Pwdn_Gpio True w10 else w10);
                    delay_us = ov13b10_cal_delay 8192;
                    w12 = usleep_range (unat delay_us) (unat (delay_us * 2)) w11
                in (0, w12))"

section \<open>Identity check: \<open>ov13b10_check_sensor_id\<close>\<close>

definition ov13b10_check_sensor_id :: "world \<Rightarrow> int \<times> world" where
  "ov13b10_check_sensor_id w =
     (let (ret, id, w') = ov13b10_read_reg OV13B10_REG_CHIP_ID OV13B10_REG_VALUE_24BIT 0 w
      in if id \<noteq> CHIP_ID then (- ENODEV, w') else (0, w'))"

section \<open>Fixtures: an idle environment and a freshly probed instance\<close>

definition world0 :: world where
  "world0 = \<lparr>trace = [], dev_regs = (\<lambda>a. 0), i2c_faults = [], pm_usage = 0,
             pm_get_sync_ret = 0, pinctrl_ret = 0, clk_set_rate_ret = 0,
             clk_rate = 24000000, clk_enable_ret = 0, regulator_enable_ret = 0\<rparr>"

text \<open>
  The instance as \<open>ov13b10_probe\<close> leaves it: zeroed, \<open>cur_mode = &supported_modes[0]\<close>,
  controls initialised; here with all GPIOs and pin states present.
\<close>

definition probed :: ov13b10 where
  "probed = ov13b10_initialize_controls
     \<lparr>power_gpio = True, reset_gpio = True, pwdn_gpio = True, pins_default = True,
      pins_sleep = True,
      exposure = v4l2_ctrl_new_std 0 0 0 0, anal_gain = v4l2_ctrl_new_std 0 0 0 0,
      hblank = v4l2_ctrl_new_std 0 0 0 0, vblank = v4l2_ctrl_new_std 0 0 0 0,
      test_pattern = v4l2_ctrl_new_std 0 0 0 0,
      streaming = False, power_on = False, cur_mode = supported_modes ! 0\<rparr>"

section \<open>Notions used to state the properties\<close>

text \<open>
  The message a register write puts on the bus: the address, most significant byte first,
  then the low \<open>len\<close> bytes of the value, most significant first.
\<close>

definition reg_msg :: "u16 \<Rightarrow> u32 \<Rightarrow> u32 \<Rightarrow> u8 list" where
  "reg_msg reg len v =
     [ucast (drop_bit 8 reg), ucast (reg AND 0xff)] @ drop (unat (4 - len)) (cpu_to_be32 v)"

text \<open>The single-byte write of one program entry, as a bus message.\<close>

definition entry_msg :: "regval \<Rightarrow> u8 list" where
  "entry_msg e = [ucast (drop_bit 8 (addr e)), ucast (addr e AND 0xff), val e]"

text \<open>
  The position of the first scripted failure among the next \<open>n\<close> bus transactions, if
  there is one.
\<close>

fun first_fault :: "nat \<Rightarrow> bool list \<Rightarrow> nat option" where
  "first_fault 0 fs = None"
| "first_fault (Suc n) [] = None"
| "first_fault (Suc n) (f # fs) = (if f then Some 0 else map_option Suc (first_fault n fs))"

text \<open>
  \<open>applyProgram\<close> as the specification words it: the entries in order, one single-byte
  write each, stopping at the first error.
\<close>

fun applyProgram :: "regval list \<Rightarrow> world \<Rightarrow> int \<times> world" where
  "applyProgram [] w = (0, w)"
| "applyProgram (e # es) w =
     (case ov13b10_write_reg (addr e) 1 (ucast (val e)) w of
        (r, w') \<Rightarrow> if r \<noteq> 0 then (r, w') else applyProgram es w')"

text \<open>
  The values the vertical-blank control accepts: the current mode is an entry of the mode
  table, and the value lies in the range that \<open>ov13b10_initialize_controls\<close> (and, with
  the same expressions, \<open>ov13b10_set_fmt\<close>) gives the control for that mode. The control
  framework hands only values of the control's range to \<open>ov13b10_set_ctrl\<close>.
\<close>

definition vblank_accepts :: "ov13b10 \<Rightarrow> u32 \<Rightarrow> bool" where
  "vblank_accepts s v \<longleftrightarrow>
     cur_mode s \<in> set supported_modes
     \<and> minimum (vblank (ov13b10_initialize_controls s)) \<le> sint v
     \<and> sint v \<le> maximum (vblank (ov13b10_initialize_controls s))"

text \<open>
  The Manhattan distance between a mode and a requested frame size, over the integers.
\<close>

definition manhattan :: "ov13b10_mode \<Rightarrow> v4l2_mbus_framefmt \<Rightarrow> int" where
  "manhattan m f =
     \<bar>uint (width m) - uint (fmt_width f)\<bar> + \<bar>uint (height m) - uint (fmt_height f)\<bar>"

text \<open>The register writes that carry the value \<open>v\<close> of a control, as bus messages.\<close>

definition ctrl_msgs :: "ctrl_id \<Rightarrow> u32 \<Rightarrow> ov13b10 \<Rightarrow> u8 list list" where
  "ctrl_msgs cid v s =
     (case cid of
        V4L2_CID_EXPOSURE \<Rightarrow> [reg_msg OV13B10_REG_EXPOSURE 3 v]
      | V4L2_CID_ANALOGUE_GAIN \<Rightarrow>
          [reg_msg OV13B10_REG_GAIN_H 1 (signed_drop_bit 8 v AND 0x07),
           reg_msg OV13B10_REG_GAIN_L 1 (v AND 0xff)]
      | V4L2_CID_VBLANK \<Rightarrow> [reg_msg OV13B10_REG_VTS 2 (v + height (cur_mode s))]
      | V4L2_CID_TEST_PATTERN \<Rightarrow>
          [reg_msg OV13B10_REG_TEST_PATTERN 1 (if v \<noteq> 0 then (v - 1) OR 0x80 else 0)]
      | V4L2_CID_HBLANK \<Rightarrow> [])"

section \<open>Properties of register access\<close>

lemma len_cases:
  assumes "(len :: u32) \<le> 4"
  shows "len = 0 \<or> len = 1 \<or> len = 2 \<or> len = 3 \<or> len = 4"
proof -
  have "unat len \<le> 4" using assms by (simp add: word_le_nat_alt)
  then have "unat len = 0 \<or> unat len = 1 \<or> unat len = 2 \<or> unat len = 3 \<or> unat len = 4"
    by arith
  moreover have "\<And>n. unat len = n \<Longrightarrow> len = of_nat n" by auto
  ultimately show ?thesis by fastforce
qed

lemma write_reg_buf:
  assumes "len \<le> 4"
  shows "take (unat (len + 2))
           (copy_val [ucast (drop_bit 8 reg), ucast (reg AND 0xff), 0, 0, 0, 0]
              (cpu_to_be32 v) 2 (unat (4 - len))) = reg_msg reg len v
         \<and> length (reg_msg reg len v) = unat (len + 2)"
  using len_cases [OF assms]
  by (elim disjE) (simp_all add: copy_val.simps reg_msg_def cpu_to_be32_def)

text \<open>
  A write of at most four bytes hands exactly one message to the bus, and fails with
  \<open>-EIO\<close> exactly when the bus fails.
\<close>

lemma write_reg_eq:
  assumes "len \<le> 4"
  shows "ov13b10_write_reg reg len v w =
           (if next_fault w then - EIO else 0, snd (i2c_master_send (reg_msg reg len v) w))"
proof -
  note b = write_reg_buf [OF assms, of reg v]
  have n: "\<not> 4 < len" using assms by simp
  have "ov13b10_write_reg reg len v w =
          (case i2c_master_send (reg_msg reg len v) w of
             (n, w') \<Rightarrow> if n \<noteq> int (unat (len + 2)) then (- EIO, w') else (0, w'))"
    using n by (simp add: ov13b10_write_reg_def Let_def b)
  also have "\<dots> = (if next_fault w then - EIO else 0, snd (i2c_master_send (reg_msg reg len v) w))"
  proof (cases "next_fault w")
    case True
    have "0 \<le> int (unat (len + 2))" by (rule of_nat_0_le_iff)
    then have "- EREMOTEIO \<noteq> int (unat (len + 2))" unfolding EREMOTEIO_def by linarith
    with True show ?thesis by (simp add: i2c_master_send_def Let_def)
  next
    case False
    then show ?thesis by (simp add: i2c_master_send_def Let_def b)
  qed
  finally show ?thesis .
qed

lemma trace_i2c_master_send [simp]:
  "trace (snd (i2c_master_send buf w)) = trace w @ [I2c_Master_Send buf]"
  by (simp add: i2c_master_send_def Let_def pop_fault_def emit_def split: list.splits)

lemma faults_i2c_master_send [simp]:
  "i2c_faults (snd (i2c_master_send buf w)) = tl (i2c_faults w)"
  by (simp add: i2c_master_send_def Let_def pop_fault_def emit_def split: list.splits)

lemma sent_append [simp]: "sent (xs @ ys) = sent xs @ sent ys"
  by (induction xs rule: sent.induct) simp_all

lemma write_reg_EINVAL_iff: "fst (ov13b10_write_reg reg len v w) = - EINVAL \<longleftrightarrow> 4 < len"
proof (cases "4 < len")
  case True then show ?thesis by (simp add: ov13b10_write_reg_def)
next
  case False
  then have "len \<le> 4" by simp
  then show ?thesis using False by (simp add: write_reg_eq EIO_def EINVAL_def)
qed

lemma read_reg_EINVAL_iff:
  "fst (ov13b10_read_reg reg len v0 w) = - EINVAL \<longleftrightarrow> len = 0 \<or> 4 < len"
  by (auto simp add: ov13b10_read_reg_def Let_def EIO_def EINVAL_def split: prod.splits)

text \<open>
  C4, as amended. \<open>ov13b10_write_reg\<close> fails with \<open>-EINVAL\<close> exactly when the byte length
  is greater than 4, and \<open>ov13b10_read_reg\<close> exactly when the byte length is 0 or greater
  than 4. A write of length 0 is not refused: it hands the two address bytes to the bus and
  returns 0, or \<open>-EIO\<close> when the bus fails.
\<close>

theorem reg_access_EINVAL_iff:
  "(fst (ov13b10_write_reg reg len v w) = - EINVAL) = (4 < len)
   \<and> (fst (ov13b10_read_reg reg len v0 w) = - EINVAL) = (len = 0 \<or> 4 < len)
   \<and> fst (ov13b10_write_reg reg 0 v w) = (if next_fault w then - EIO else 0)
   \<and> sent (trace (snd (ov13b10_write_reg reg 0 v w)))
       = sent (trace w) @ [[ucast (drop_bit 8 reg), ucast (reg AND 0xff)]]"
proof -
  have m: "reg_msg reg 0 v = [ucast (drop_bit 8 reg), ucast (reg AND 0xff)]"
    by (simp add: reg_msg_def cpu_to_be32_def)
  have "ov13b10_write_reg reg 0 v w
          = (if next_fault w then - EIO else 0, snd (i2c_master_send (reg_msg reg 0 v) w))"
    by (rule write_reg_eq) simp
  then show ?thesis
    using write_reg_EINVAL_iff [of reg len v w] read_reg_EINVAL_iff [of reg len v0 w]
    by (simp add: m)
qed

text \<open>
  C4 as stated, with the write refusing a byte length of 0 before any bus transaction,
  fails: at length 0 on an idle bus the write sends the two address bytes and returns 0,
  where the read returns \<open>-EINVAL\<close> and leaves the bus alone.
\<close>

theorem write_reg_zero_length:
  "ov13b10_write_reg 0x0100 0 0 world0 = (0, world0\<lparr>trace := [I2c_Master_Send [0x01, 0x00]]\<rparr>)
   \<and> ov13b10_read_reg 0x0100 0 0 world0 = (- EINVAL, 0, world0)"
  by (simp add: write_reg_eq ov13b10_read_reg_def reg_msg_def cpu_to_be32_def
      i2c_master_send_def world0_def next_fault_def pop_fault_def emit_def Let_def)

lemma ff_mask16: "(0xff :: u16) = mask 8"
  by (simp add: mask_eq_exp_minus_1)

lemma be16_addr [simp]: "be16 (ucast (drop_bit 8 a)) (ucast (a AND 0xff)) = a"
  unfolding be16_def ff_mask16
  by (rule bit_word_eqI) (auto simp add: bit_simps)

lemma be16_addr' [simp]: "be16 (ucast (drop_bit 8 a)) (ucast a) = a"
  unfolding be16_def
  by (rule bit_word_eqI) (auto simp add: bit_simps)

lemma load_bytes_numeral:
  "load_bytes a 2 m = load_bytes a (Suc (Suc 0)) m"
  "load_bytes a 3 m = load_bytes a (Suc (Suc (Suc 0))) m"
  "load_bytes a 4 m = load_bytes a (Suc (Suc (Suc (Suc 0)))) m"
  by (simp_all add: eval_nat_numeral)

lemma replicate_numeral:
  "replicate 2 x = [x, x]" "replicate 3 x = [x, x, x]"
  by (simp_all add: eval_nat_numeral)

lemma length_load_bytes [simp]: "length (load_bytes a n m) = n"
  by (induction n arbitrary: a) simp_all

text \<open>
  A read of one to four bytes is one bus transaction; it fails with \<open>-EIO\<close> exactly when
  the bus fails, and otherwise returns the bytes read, most significant first.
\<close>

lemma read_reg_eq:
  assumes "len \<le> 4" and "len \<noteq> 0"
  shows "ov13b10_read_reg reg len v0 w =
           (let w1 = pop_fault (emit (I2c_Transfer [ucast (drop_bit 8 reg), ucast reg] (unat len)) w)
            in if next_fault w then (- EIO, v0, w1)
               else (0, be32_to_cpu (replicate (4 - unat len) 0
                                       @ load_bytes reg (unat len) (dev_regs w)), w1))"
  using len_cases [OF assms(1)] assms(2)
  by (elim disjE)
    (simp_all add: ov13b10_read_reg_def Let_def i2c_transfer_def pop_fault_def emit_def
      EREMOTEIO_def load_bytes_numeral replicate_numeral)

lemma be32_of_u16:
  "be32_to_cpu [0, 0, ucast (drop_bit 8 (ucast (v :: u16) :: u32)), ucast (ucast v :: u32)] = ucast v"
  unfolding be32_to_cpu_def
  by (rule bit_word_eqI) (auto simp add: bit_simps dest: bit_imp_le_length)

text \<open>
  C9. For every 16-bit address and every 16-bit value, on a bus double whose next two
  transactions succeed: the two-byte write sends the address and the value, each most
  significant byte first, and succeeds; the two-byte read of the same address that follows
  succeeds and returns the value written.
\<close>

theorem write_read_roundtrip:
  assumes "True \<notin> set (take 2 (i2c_faults w))"
  shows "fst (ov13b10_write_reg a OV13B10_REG_VALUE_16BIT (ucast (v :: u16)) w) = 0
       \<and> sent (trace (snd (ov13b10_write_reg a OV13B10_REG_VALUE_16BIT (ucast v) w)))
           = sent (trace w) @ [[ucast (drop_bit 8 a), ucast (a AND 0xff),
                                ucast (drop_bit 8 v), ucast v]]
       \<and> fst (ov13b10_read_reg a OV13B10_REG_VALUE_16BIT x
                (snd (ov13b10_write_reg a OV13B10_REG_VALUE_16BIT (ucast v) w))) = 0
       \<and> fst (snd (ov13b10_read_reg a OV13B10_REG_VALUE_16BIT x
                (snd (ov13b10_write_reg a OV13B10_REG_VALUE_16BIT (ucast v) w)))) = ucast v"
proof -
  have f1: "\<not> next_fault w"
    using assms by (cases "i2c_faults w") (auto simp add: next_fault_def)
  let ?w' = "snd (i2c_master_send (reg_msg a 2 (ucast v)) w)"
  have f2: "\<not> next_fault ?w'"
    using assms by (cases "i2c_faults w"; cases "tl (i2c_faults w)") (auto simp add: next_fault_def)
  have wr: "ov13b10_write_reg a 2 (ucast v) w = (0, ?w')"
    using f1 by (simp add: write_reg_eq)
  have msg: "reg_msg a 2 (ucast v)
      = [ucast (drop_bit 8 a), ucast (a AND 0xff), ucast (drop_bit 8 (ucast v :: u32)), ucast (ucast v :: u32)]"
    by (simp add: reg_msg_def cpu_to_be32_def)
  have regs: "load_bytes a 2 (dev_regs ?w')
      = [ucast (drop_bit 8 (ucast v :: u32)), ucast (ucast v :: u32)]"
    using f1 by (simp add: msg i2c_master_send_def Let_def pop_fault_def emit_def load_bytes_numeral)
  have rd: "fst (ov13b10_read_reg a 2 x ?w') = 0 \<and> fst (snd (ov13b10_read_reg a 2 x ?w')) = ucast v"
    using f2 by (simp add: read_reg_eq Let_def regs be32_of_u16 replicate_numeral)
  have b1: "(ucast (drop_bit 8 (ucast v :: u32)) :: u8) = ucast (drop_bit 8 v)"
    by (rule bit_word_eqI) (auto simp add: bit_simps dest: bit_imp_le_length)
  have b2: "(ucast (ucast v :: u32) :: u8) = ucast v"
    by (rule bit_word_eqI) (auto simp add: bit_simps dest: bit_imp_le_length)
  show ?thesis
    using rd by (simp add: OV13B10_REG_VALUE_16BIT_def wr msg b1 b2)
qed

theorem write_read_roundtrip_witness:
  "fst (ov13b10_write_reg 0x380e OV13B10_REG_VALUE_16BIT 0x1234 world0) = 0
   \<and> sent (trace (snd (ov13b10_write_reg 0x380e OV13B10_REG_VALUE_16BIT 0x1234 world0)))
       = [[0x38, 0x0e, 0x12, 0x34]]
   \<and> fst (ov13b10_read_reg 0x380e OV13B10_REG_VALUE_16BIT 0
            (snd (ov13b10_write_reg 0x380e OV13B10_REG_VALUE_16BIT 0x1234 world0))) = 0
   \<and> fst (snd (ov13b10_read_reg 0x380e OV13B10_REG_VALUE_16BIT 0
            (snd (ov13b10_write_reg 0x380e OV13B10_REG_VALUE_16BIT 0x1234 world0)))) = 0x1234"
proof -
  have h: "True \<notin> set (take 2 (i2c_faults world0))" by (simp add: world0_def)
  show ?thesis
    using write_read_roundtrip [OF h, of "0x380e" "0x1234" 0] by (simp add: world0_def)
qed


text \<open>Three bytes packed most significant first determine the bytes.\<close>

lemma be32_three_bytes:
  "ucast (drop_bit 16 (be32_to_cpu [0, a, b, c])) = a"
  "ucast (drop_bit 8 (be32_to_cpu [0, a, b, c])) = b"
  "ucast (be32_to_cpu [0, a, b, c]) = c"
  unfolding be32_to_cpu_def
  by (rule bit_word_eqI; auto simp add: bit_simps dest: bit_imp_le_length)+

lemma chip_id_bytes:
  "be32_to_cpu [0, a, b, c] = CHIP_ID \<longleftrightarrow> a = 0x56 \<and> b = 0x0d \<and> c = 0x42"
proof
  assume e: "be32_to_cpu [0, a, b, c] = CHIP_ID"
  have "a = ucast (drop_bit 16 CHIP_ID)" "b = ucast (drop_bit 8 CHIP_ID)" "c = ucast CHIP_ID"
    using be32_three_bytes [of a b c] unfolding e by simp_all
  then show "a = 0x56 \<and> b = 0x0d \<and> c = 0x42" by (simp add: CHIP_ID_def)
next
  assume "a = 0x56 \<and> b = 0x0d \<and> c = 0x42"
  then show "be32_to_cpu [0, a, b, c] = CHIP_ID" by (simp add: be32_to_cpu_def CHIP_ID_def)
qed

text \<open>
  C10. \<open>ov13b10_check_sensor_id\<close> returns 0 exactly when the bus read succeeds and the
  three bytes at register 0x300a are 0x56, 0x0d, 0x42 (the constant 0x560d42); in every
  other case, a failed bus read included, it returns \<open>-ENODEV\<close>, never the read's
  \<open>-EIO\<close>. Its only bus activity is the one read transaction: nothing is sent with
  \<open>i2c_master_send\<close> and the device registers are unchanged.
\<close>

theorem check_sensor_id_result:
  "fst (ov13b10_check_sensor_id w) =
     (if \<not> next_fault w \<and> load_bytes OV13B10_REG_CHIP_ID 3 (dev_regs w) = [0x56, 0x0d, 0x42]
      then 0 else - ENODEV)
   \<and> fst (ov13b10_check_sensor_id w) \<noteq> - EIO
   \<and> trace (snd (ov13b10_check_sensor_id w)) = trace w @ [I2c_Transfer [0x30, 0x0a] 3]
   \<and> sent (trace (snd (ov13b10_check_sensor_id w))) = sent (trace w)
   \<and> dev_regs (snd (ov13b10_check_sensor_id w)) = dev_regs w"
proof -
  have c0: "CHIP_ID \<noteq> 0" by (simp add: CHIP_ID_def)
  obtain a b c where lb: "load_bytes OV13B10_REG_CHIP_ID 3 (dev_regs w) = [a, b, c]"
    by (simp add: load_bytes_numeral)
  have tr: "[ucast (drop_bit 8 OV13B10_REG_CHIP_ID), ucast OV13B10_REG_CHIP_ID] = [0x30, 0x0a :: u8]"
    by (simp add: OV13B10_REG_CHIP_ID_def)
  show ?thesis
    using c0
    by (simp add: ov13b10_check_sensor_id_def OV13B10_REG_VALUE_24BIT_def read_reg_eq Let_def
        lb tr replicate_numeral chip_id_bytes pop_fault_def emit_def ENODEV_def EIO_def)
qed

section \<open>Properties of register programs\<close>

lemma reg_msg_entry: "reg_msg (addr e) 1 (ucast (val e)) = entry_msg e"
proof -
  have "(ucast (ucast (val e) :: u32) :: u8) = val e"
    by (rule bit_word_eqI) (auto simp add: bit_simps dest: bit_imp_le_length)
  then show ?thesis by (simp add: reg_msg_def entry_msg_def cpu_to_be32_def)
qed

lemma write_entry:
  "ov13b10_write_reg (addr e) OV13B10_REG_VALUE_08BIT (ucast (val e)) w =
     (if next_fault w then - EIO else 0, snd (i2c_master_send (entry_msg e) w))"
  by (simp add: OV13B10_REG_VALUE_08BIT_def write_reg_eq reg_msg_entry)

lemma write_array_loop_prefix:
  assumes "\<forall>e\<in>set pre. addr e \<noteq> REG_NULL"
  shows "write_array_loop (done @ pre @ \<lparr>addr = REG_NULL, val = x\<rparr> # rest) (length done) 0 w =
           (case applyProgram pre w of (r, w') \<Rightarrow> (Ret r, w'))"
  using assms
proof (induction pre arbitrary: "done" w)
  case Nil
  then show ?case by (simp add: write_array_loop.simps)
next
  case (Cons e es)
  let ?regs = "done @ (e # es) @ \<lparr>addr = REG_NULL, val = x\<rparr> # rest"
  have a: "addr e \<noteq> REG_NULL" using Cons.prems by simp
  have r: "?regs = (done @ [e]) @ es @ \<lparr>addr = REG_NULL, val = x\<rparr> # rest" by simp
  obtain ret w' where wr: "ov13b10_write_reg (addr e) OV13B10_REG_VALUE_08BIT (ucast (val e)) w = (ret, w')"
    by (cases "ov13b10_write_reg (addr e) OV13B10_REG_VALUE_08BIT (ucast (val e)) w")
  have step: "write_array_loop ?regs (length done) 0 w = write_array_loop ?regs (length done + 1) ret w'"
    using a wr by (subst write_array_loop.simps) simp
  show ?case
  proof (cases "ret = 0")
    case True
    have "write_array_loop ?regs (length (done @ [e])) 0 w'
            = (case applyProgram es w' of (r, w'') \<Rightarrow> (Ret r, w''))"
      unfolding r using Cons.prems by (intro Cons.IH) simp
    then show ?thesis using step wr True by (simp add: OV13B10_REG_VALUE_08BIT_def)
  next
    case False
    then have "write_array_loop ?regs (length done + 1) ret w' = (Ret ret, w')"
      by (subst write_array_loop.simps) simp
    then show ?thesis using step wr False by (simp add: OV13B10_REG_VALUE_08BIT_def)
  qed
qed

lemma write_array_terminated:
  assumes "\<forall>e\<in>set pre. addr e \<noteq> REG_NULL"
  shows "ov13b10_write_array (pre @ \<lparr>addr = REG_NULL, val = x\<rparr> # rest) w =
           (case applyProgram pre w of (r, w') \<Rightarrow> (Ret r, w'))"
  using write_array_loop_prefix [OF assms, of "[]"] by (simp add: ov13b10_write_array_def)

lemma first_fault_Nil [simp]: "first_fault n [] = None"
  by (cases n) simp_all

lemma next_fault_Cons: "next_fault w \<Longrightarrow> \<exists>fs. i2c_faults w = True # fs"
  by (auto simp add: next_fault_def split: list.splits)

lemma not_next_fault: "\<not> next_fault w \<Longrightarrow> i2c_faults w = [] \<or> (\<exists>fs. i2c_faults w = False # fs)"
  by (auto simp add: next_fault_def split: list.splits)

lemma dev_regs_send_entry:
  "dev_regs (snd (i2c_master_send (entry_msg e) w)) =
     (if next_fault w then dev_regs w else (dev_regs w)(addr e := val e))"
  by (simp add: i2c_master_send_def entry_msg_def Let_def pop_fault_def emit_def)

lemma applyProgram_result:
  "(case first_fault (length es) (i2c_faults w) of
      None \<Rightarrow> fst (applyProgram es w) = 0
        \<and> sent (trace (snd (applyProgram es w))) = sent (trace w) @ map entry_msg es
        \<and> dev_regs (snd (applyProgram es w)) = foldl (\<lambda>m e. m(addr e := val e)) (dev_regs w) es
    | Some k \<Rightarrow> fst (applyProgram es w) = - EIO
        \<and> sent (trace (snd (applyProgram es w))) = sent (trace w) @ map entry_msg (take (Suc k) es)
        \<and> dev_regs (snd (applyProgram es w))
            = foldl (\<lambda>m e. m(addr e := val e)) (dev_regs w) (take k es))"
proof (induction es arbitrary: w)
  case Nil
  then show ?case by simp
next
  case (Cons e es)
  let ?w' = "snd (i2c_master_send (entry_msg e) w)"
  show ?case
  proof (cases "next_fault w")
    case True
    then obtain fs where "i2c_faults w = True # fs" using next_fault_Cons by blast
    then show ?thesis using True
      by (simp add: write_entry [unfolded OV13B10_REG_VALUE_08BIT_def] EIO_def dev_regs_send_entry)
  next
    case False
    have ap: "applyProgram (e # es) w = applyProgram es ?w'"
      using False by (simp add: write_entry [unfolded OV13B10_REG_VALUE_08BIT_def])
    have fs: "first_fault (Suc (length es)) (i2c_faults w)
                = map_option Suc (first_fault (length es) (i2c_faults ?w'))"
      using not_next_fault [OF False] by auto
    have dr: "dev_regs ?w' = (dev_regs w)(addr e := val e)"
      using False by (simp add: dev_regs_send_entry)
    show ?thesis
    proof (cases "first_fault (length es) (i2c_faults ?w')")
      case None
      with Cons.IH [of ?w'] show ?thesis
        unfolding ap by (simp add: fs dr del: applyProgram.simps fun_upd_apply)
    next
      case (Some k)
      with Cons.IH [of ?w'] show ?thesis
        unfolding ap by (simp add: fs dr del: applyProgram.simps fun_upd_apply)
    qed
  qed
qed




section \<open>Properties of the streaming and power state\<close>

text \<open>
  C7. A stop request while streaming returns 0 and leaves the instance stopped whatever
  the bus does: the standby write to register 0x0100 is attempted, its result (\<open>-EIO\<close>
  when the bus fails) is dropped.
\<close>

theorem stop_stream_best_effort:
  assumes "streaming s"
  shows "fst (ov13b10_s_stream 0 s w) = Ret 0
       \<and> streaming (fst (snd (ov13b10_s_stream 0 s w))) = False
       \<and> fst (ov13b10_stop_stream (emit Mutex_Lock w)) = (if next_fault w then - EIO else 0)
       \<and> trace (snd (snd (ov13b10_s_stream 0 s w)))
           = trace w @ [Mutex_Lock, I2c_Master_Send [0x01, 0x00, 0x00], Pm_Runtime_Put, Mutex_Unlock]"
proof -
  have m: "reg_msg OV13B10_REG_CTRL_MODE 1 OV13B10_MODE_SW_STANDBY = [0x01, 0x00, 0x00]"
    by (simp add: reg_msg_def cpu_to_be32_def OV13B10_REG_CTRL_MODE_def OV13B10_MODE_SW_STANDBY_def)
  have st: "ov13b10_stop_stream w' =
      (if next_fault w' then - EIO else 0, snd (i2c_master_send [0x01, 0x00, 0x00] w'))" for w'
    by (simp add: ov13b10_stop_stream_def OV13B10_REG_VALUE_08BIT_def write_reg_eq m)
  have nf: "next_fault (w'\<lparr>trace := t\<rparr>) = next_fault w'" for w' t
    by (simp add: next_fault_def)
  show ?thesis
    using assms
    by (simp add: ov13b10_s_stream_def Let_def st nf pm_runtime_put_def emit_def)
qed

theorem stop_stream_best_effort_witness:
  "fst (ov13b10_s_stream 0 (probed\<lparr>streaming := True\<rparr>) (world0\<lparr>i2c_faults := [True]\<rparr>)) = Ret 0
   \<and> streaming (fst (snd (ov13b10_s_stream 0 (probed\<lparr>streaming := True\<rparr>)
                             (world0\<lparr>i2c_faults := [True]\<rparr>)))) = False
   \<and> fst (ov13b10_stop_stream (emit Mutex_Lock (world0\<lparr>i2c_faults := [True]\<rparr>))) = - EIO"
proof -
  have h: "streaming (probed\<lparr>streaming := True\<rparr>)" by simp
  show ?thesis
    using stop_stream_best_effort [OF h, of "world0\<lparr>i2c_faults := [True]\<rparr>"]
    by (simp add: world0_def next_fault_def)
qed

text \<open>
  C8. Requesting the power state, or the streaming state, that the instance already has
  returns 0 and changes nothing: the only calls made are taking and releasing the mutex
  around the comparison.
\<close>

theorem same_state_noop:
  "(power_on s = (on \<noteq> 0) \<longrightarrow>
      ov13b10_s_power on s w = (Ret 0, s, w\<lparr>trace := trace w @ [Mutex_Lock, Mutex_Unlock]\<rparr>))
   \<and> (streaming s = (on \<noteq> 0) \<longrightarrow>
      ov13b10_s_stream on s w = (Ret 0, s, w\<lparr>trace := trace w @ [Mutex_Lock, Mutex_Unlock]\<rparr>))"
  by (auto simp add: ov13b10_s_power_def ov13b10_s_stream_def Let_def emit_def)

theorem same_state_noop_witness:
  "ov13b10_s_power 1 (probed\<lparr>power_on := True, streaming := True\<rparr>) world0
     = (Ret 0, probed\<lparr>power_on := True, streaming := True\<rparr>, world0\<lparr>trace := [Mutex_Lock, Mutex_Unlock]\<rparr>)
   \<and> ov13b10_s_stream 1 (probed\<lparr>power_on := True, streaming := True\<rparr>) world0
     = (Ret 0, probed\<lparr>power_on := True, streaming := True\<rparr>, world0\<lparr>trace := [Mutex_Lock, Mutex_Unlock]\<rparr>)
   \<and> ov13b10_s_power 0 (probed\<lparr>power_on := False, streaming := False\<rparr>) world0
     = (Ret 0, probed\<lparr>power_on := False, streaming := False\<rparr>, world0\<lparr>trace := [Mutex_Lock, Mutex_Unlock]\<rparr>)
   \<and> ov13b10_s_stream 0 (probed\<lparr>power_on := False, streaming := False\<rparr>) world0
     = (Ret 0, probed\<lparr>power_on := False, streaming := False\<rparr>, world0\<lparr>trace := [Mutex_Lock, Mutex_Unlock]\<rparr>)"
  using same_state_noop [of "probed\<lparr>power_on := True, streaming := True\<rparr>" 1 world0]
    same_state_noop [of "probed\<lparr>power_on := False, streaming := False\<rparr>" 0 world0]
  by (simp add: world0_def)

section \<open>Properties of the power-on sequence\<close>

text \<open>
  C6. In \<open>__ov13b10_power_on\<close>: when \<open>clk_prepare_enable\<close> fails, its error is returned
  and the sequence ends there, the power GPIO and the pin state set earlier left as they
  are; when the clock was enabled and \<open>regulator_bulk_enable\<close> fails, the clock is
  disabled again and the regulator error is returned.
\<close>

theorem power_on_failures:
  "(clk_enable_ret w < 0 \<longrightarrow>
      ov13b10_power_on s w =
        (clk_enable_ret w,
         w\<lparr>trace := trace w
            @ (if power_gpio s then [Gpiod_Set_Value Power_Gpio True] else [])
            @ [Usleep_Range 1000 2000]
            @ (if pins_default s then [Pinctrl_Select_State Pins_Default] else [])
            @ [Clk_Set_Rate 24000000, Clk_Get_Rate, Clk_Prepare_Enable]\<rparr>))
   \<and> (0 \<le> clk_enable_ret w \<and> regulator_enable_ret w < 0 \<longrightarrow>
      ov13b10_power_on s w =
        (regulator_enable_ret w,
         w\<lparr>trace := trace w
            @ (if power_gpio s then [Gpiod_Set_Value Power_Gpio True] else [])
            @ [Usleep_Range 1000 2000]
            @ (if pins_default s then [Pinctrl_Select_State Pins_Default] else [])
            @ [Clk_Set_Rate 24000000, Clk_Get_Rate, Clk_Prepare_Enable]
            @ (if reset_gpio s then [Gpiod_Set_Value Reset_Gpio False] else [])
            @ [Regulator_Bulk_Enable, Clk_Disable_Unprepare]\<rparr>))"
  by (simp add: ov13b10_power_on_def Let_def gpiod_set_value_cansleep_def usleep_range_def
      pinctrl_select_state_def clk_set_rate_def clk_get_rate_def clk_prepare_enable_def
      regulator_bulk_enable_def clk_disable_unprepare_def emit_def OV13B10_XVCLK_FREQ_def)

theorem power_on_failures_witness:
  "ov13b10_power_on probed (world0\<lparr>clk_enable_ret := - 5\<rparr>) =
     (- 5, world0\<lparr>clk_enable_ret := - 5,
                  trace := [Gpiod_Set_Value Power_Gpio True, Usleep_Range 1000 2000,
                            Pinctrl_Select_State Pins_Default, Clk_Set_Rate 24000000,
                            Clk_Get_Rate, Clk_Prepare_Enable]\<rparr>)
   \<and> ov13b10_power_on probed (world0\<lparr>regulator_enable_ret := - 5\<rparr>) =
     (- 5, world0\<lparr>regulator_enable_ret := - 5,
                  trace := [Gpiod_Set_Value Power_Gpio True, Usleep_Range 1000 2000,
                            Pinctrl_Select_State Pins_Default, Clk_Set_Rate 24000000,
                            Clk_Get_Rate, Clk_Prepare_Enable, Gpiod_Set_Value Reset_Gpio False,
                            Regulator_Bulk_Enable, Clk_Disable_Unprepare]\<rparr>)"
  using power_on_failures [of "world0\<lparr>clk_enable_ret := - 5\<rparr>" probed]
    power_on_failures [of "world0\<lparr>regulator_enable_ret := - 5\<rparr>" probed]
  by (simp add: world0_def probed_def ov13b10_initialize_controls_def Let_def)

section \<open>Properties of control translation\<close>

lemma vblank_accepts_bounds:
  assumes "vblank_accepts s v"
  shows "0 \<le> sint v" and "3196 \<le> uint (height (cur_mode s)) + sint v"
    and "uint (height (cur_mode s)) + sint v \<le> 0x7fff"
proof -
  have m: "cur_mode s \<in> set supported_modes"
    and lo: "uint (vts_def (cur_mode s) - height (cur_mode s)) \<le> sint v"
    and hi: "sint v \<le> uint (OV13B10_VTS_MAX - height (cur_mode s))"
    using assms
    by (simp_all add: vblank_accepts_def ov13b10_initialize_controls_def v4l2_ctrl_new_std_def
        Let_def)
  have "uint (vts_def (cur_mode s) - height (cur_mode s)) = 3196 - uint (height (cur_mode s))
      \<and> uint (OV13B10_VTS_MAX - height (cur_mode s)) = 0x7fff - uint (height (cur_mode s))
      \<and> uint (height (cur_mode s)) \<le> 3120"
    using m by (auto simp add: supported_modes_def OV13B10_VTS_MAX_def)
  with lo hi show "0 \<le> sint v" and "3196 \<le> uint (height (cur_mode s)) + sint v"
    and "uint (height (cur_mode s)) + sint v \<le> 0x7fff"
    by simp_all
qed

lemma sint_nonneg_uint:
  assumes "0 \<le> sint (v :: u32)"
  shows "uint v = sint v"
proof -
  have "sint v < 2 ^ 32" using sint_lt [of v] by simp
  then show ?thesis using assms by (simp add: uint_sint take_bit_int_eq_self)
qed

lemma vblank_sum:
  assumes "vblank_accepts s v"
  shows "uint (v + height (cur_mode s)) = sint v + uint (height (cur_mode s))"
    and "uint (height (cur_mode s) + v - 16) = uint (height (cur_mode s)) + sint v - 16"
proof -
  note b = vblank_accepts_bounds [OF assms]
  have u: "uint v = sint v" using b(1) by (rule sint_nonneg_uint)
  have "uint (height (cur_mode s)) + uint v < 2 ^ 32" using b(3) u by simp
  then have s1: "uint (height (cur_mode s) + v) = uint (height (cur_mode s)) + uint v"
    by (simp add: uint_add_lem [THEN iffD1])
  then show "uint (v + height (cur_mode s)) = sint v + uint (height (cur_mode s))"
    using u by (simp add: add.commute)
  have "uint (16 :: u32) \<le> uint (height (cur_mode s) + v)" using s1 u b(2) by simp
  then have "uint (height (cur_mode s) + v - 16) = uint (height (cur_mode s) + v) - uint (16 :: u32)"
    by (simp add: uint_sub_lem [THEN iffD1])
  then show "uint (height (cur_mode s) + v - 16) = uint (height (cur_mode s)) + sint v - 16"
    using s1 u by simp
qed


lemma vts_msg: "reg_msg OV13B10_REG_VTS 2 x = [0x38, 0x0e, ucast (drop_bit 8 x), ucast x]"
  by (simp add: reg_msg_def cpu_to_be32_def OV13B10_REG_VTS_def)

lemma next_fault_upd [simp]:
  "next_fault (w\<lparr>trace := t\<rparr>) = next_fault w"
  "next_fault (w\<lparr>pm_usage := n\<rparr>) = next_fault w"
  by (simp_all add: next_fault_def)

lemma set_ctrl_vblank:
  "ov13b10_set_ctrl V4L2_CID_VBLANK v s w =
     (let mx = uint (height (cur_mode s) + v - 16);
          s1 = s\<lparr>exposure := (exposure s)\<lparr>maximum := mx\<rparr>\<rparr>;
          ev = Ctrl_Modify_Range V4L2_CID_EXPOSURE (minimum (exposure s)) mx
                 (step (exposure s)) (default_value (exposure s))
      in if pm_usage w = 0
         then (0, s1, w\<lparr>trace := trace w @ [ev, Pm_Runtime_Get_If_In_Use]\<rparr>)
         else (if next_fault w then - EIO else 0, s1,
               w\<lparr>trace := trace w @ [ev, Pm_Runtime_Get_If_In_Use,
                     I2c_Master_Send [0x38, 0x0e, ucast (drop_bit 8 (v + height (cur_mode s))),
                                      ucast (v + height (cur_mode s))],
                     Pm_Runtime_Put],
                 i2c_faults := tl (i2c_faults w),
                 dev_regs := if next_fault w then dev_regs w
                    else store_bytes OV13B10_REG_VTS
                           [ucast (drop_bit 8 (v + height (cur_mode s))),
                            ucast (v + height (cur_mode s))] (dev_regs w)\<rparr>))"
proof -
  have be: "be16 0x38 0x0e = OV13B10_REG_VTS"
    by (simp add: be16_def OV13B10_REG_VTS_def)
  show ?thesis
    by (simp add: ov13b10_set_ctrl_def set_ctrl_range_def set_ctrl_write_def
        v4l2_ctrl_modify_range_def pm_runtime_get_if_in_use_def pm_runtime_put_def
        OV13B10_REG_VALUE_16BIT_def write_reg_eq vts_msg i2c_master_send_def
        Let_def emit_def pop_fault_def be)
qed

lemma low16_value:
  assumes "uint (x :: u32) < 2 ^ 16"
  shows "uint (be16 (ucast (drop_bit 8 x)) (ucast x)) = uint x"
proof -
  have "be16 (ucast (drop_bit 8 x)) (ucast x) = (ucast x :: u16)"
    unfolding be16_def by (rule bit_word_eqI) (auto simp add: bit_simps)
  moreover have "uint (ucast x :: u16) = uint x"
    using assms by (simp add: unsigned_ucast_eq take_bit_int_eq_self)
  ultimately show ?thesis by simp
qed

text \<open>
  C3. For accepted vertical-blank values \<open>v\<close> and \<open>v2\<close>: setting vertical blank to \<open>v\<close>
  first gives the exposure control the maximum \<open>height + v - 16\<close> (the range update is
  the first call made, before the availability check and any bus write), and the write
  that follows while the device is in use is the two-byte write of \<open>v + height\<close> to
  register 0x380e; setting vertical blank again to \<open>v2\<close>, with no exposure operation in
  between, gives the exposure control the maximum \<open>height + v2 - 16\<close> and sends nothing
  but the two-byte write of \<open>v2 + height\<close> to 0x380e.
\<close>

theorem vblank_range_cascade:
  assumes "vblank_accepts s v" and "vblank_accepts s v2"
  shows "case ov13b10_set_ctrl V4L2_CID_VBLANK v s w of
           (r1, s1, w1) \<Rightarrow>
             maximum (exposure s1) = uint (height (cur_mode s)) + sint v - 16
             \<and> trace w1 = trace w
                 @ [Ctrl_Modify_Range V4L2_CID_EXPOSURE (minimum (exposure s))
                      (uint (height (cur_mode s)) + sint v - 16)
                      (step (exposure s)) (default_value (exposure s)),
                    Pm_Runtime_Get_If_In_Use]
                 @ (if 0 < pm_usage w
                    then [I2c_Master_Send [0x38, 0x0e, ucast (drop_bit 8 (v + height (cur_mode s))),
                                           ucast (v + height (cur_mode s))],
                          Pm_Runtime_Put]
                    else [])
             \<and> uint (be16 (ucast (drop_bit 8 (v + height (cur_mode s))))
                            (ucast (v + height (cur_mode s))))
                 = sint v + uint (height (cur_mode s))
             \<and> (case ov13b10_set_ctrl V4L2_CID_VBLANK v2 s1 w1 of
                  (r2, s2, w2) \<Rightarrow>
                    maximum (exposure s2) = uint (height (cur_mode s)) + sint v2 - 16
                    \<and> sent (trace w2) = sent (trace w1)
                        @ (if 0 < pm_usage w
                           then [[0x38, 0x0e, ucast (drop_bit 8 (v2 + height (cur_mode s))),
                                  ucast (v2 + height (cur_mode s))]]
                           else []))"
proof -
  note a = vblank_sum [OF assms(1)] and a2 = vblank_sum [OF assms(2)]
  have "uint (v + height (cur_mode s)) < 2 ^ 16"
    using a(1) vblank_accepts_bounds(3) [OF assms(1)] by simp
  then have c: "uint (be16 (ucast (drop_bit 8 (v + height (cur_mode s))))
                           (ucast (v + height (cur_mode s))))
                  = sint v + uint (height (cur_mode s))"
    using a(1) by (simp add: low16_value)
  show ?thesis
    by (simp add: set_ctrl_vblank Let_def a a2 c)
qed


theorem vblank_range_cascade_witness:
  "case ov13b10_set_ctrl V4L2_CID_VBLANK 76 probed (world0\<lparr>pm_usage := 1\<rparr>) of
     (r1, s1, w1) \<Rightarrow>
       maximum (exposure s1) = 3180
       \<and> trace w1 = [Ctrl_Modify_Range V4L2_CID_EXPOSURE 4 3180 1 3072, Pm_Runtime_Get_If_In_Use,
                     I2c_Master_Send [0x38, 0x0e, 0x0c, 0x7c], Pm_Runtime_Put]
       \<and> (case ov13b10_set_ctrl V4L2_CID_VBLANK 100 s1 w1 of
            (r2, s2, w2) \<Rightarrow>
              maximum (exposure s2) = 3204
              \<and> sent (trace w2) = [[0x38, 0x0e, 0x0c, 0x7c], [0x38, 0x0e, 0x0c, 0x94]])"
proof -
  have p: "cur_mode probed = supported_modes ! 0"
    "minimum (exposure probed) = 4" "step (exposure probed) = 1"
    "default_value (exposure probed) = 3072"
    by (simp_all add: probed_def ov13b10_initialize_controls_def v4l2_ctrl_new_std_def Let_def
        supported_modes_def)
  have m: "height (supported_modes ! 0) = 3120" "vts_def (supported_modes ! 0) = 0x0c7c"
    "supported_modes ! 0 \<in> set supported_modes"
    by (simp_all add: supported_modes_def)
  have h1: "vblank_accepts probed 76" and h2: "vblank_accepts probed 100"
    by (simp_all add: vblank_accepts_def ov13b10_initialize_controls_def v4l2_ctrl_new_std_def
        Let_def p m OV13B10_VTS_MAX_def)
  show ?thesis
    using vblank_range_cascade [OF h1 h2, of "world0\<lparr>pm_usage := 1\<rparr>"]
    by (simp add: p m world0_def split: prod.splits)
qed

section \<open>Properties of best-fit mode selection\<close>

text \<open>Where the mathematical value fits, the 32-bit signed arithmetic is exact.\<close>

lemma sint_exact:
  assumes "- (2 ^ 31) \<le> k" and "k < 2 ^ 31"
  shows "sint (word_of_int k :: u32) = k"
  using assms by (simp add: sint_sbintrunc' signed_take_bit_int_eq_self)

lemma sint_diff_exact:
  fixes a b :: u32
  assumes "\<bar>uint a - uint b\<bar> < 2 ^ 31"
  shows "sint (a - b) = uint a - uint b"
proof -
  have "a - b = word_of_int (uint a - uint b)" by simp
  moreover have "- (2 ^ 31) \<le> uint a - uint b" "uint a - uint b < 2 ^ 31"
    using assms by linarith+
  ultimately show ?thesis using sint_exact by metis
qed

lemma sint_neg_exact:
  fixes x :: u32
  assumes "- (2 ^ 31) < sint x"
  shows "sint (- x) = - sint x"
proof -
  have "- x = word_of_int (- sint x)" by simp
  moreover have "- (2 ^ 31) \<le> - sint x" using sint_lt [of x] by simp
  moreover have "- sint x < 2 ^ 31" using assms by simp
  ultimately show ?thesis using sint_exact by metis
qed

lemma sint_add_exact:
  fixes x y :: u32
  assumes "0 \<le> sint x" "0 \<le> sint y" "sint x + sint y < 2 ^ 31"
  shows "sint (x + y) = sint x + sint y"
proof -
  have "x + y = word_of_int (sint x + sint y)" by simp
  moreover have "- (2 ^ 31) \<le> sint x + sint y" using assms by simp
  ultimately show ?thesis using sint_exact assms(3) by metis
qed

lemma abs_s32_exact:
  fixes a b :: u32
  assumes "\<bar>uint a - uint b\<bar> < 2 ^ 31"
  shows "sint (abs_s32 (a - b)) = \<bar>uint a - uint b\<bar>"
proof -
  note d = sint_diff_exact [OF assms]
  show ?thesis
  proof (cases "sint (a - b) < 0")
    case True
    have "- (2 ^ 31) < sint (a - b)" using assms d by linarith
    then have "sint (- (a - b)) = - sint (a - b)" by (rule sint_neg_exact)
    then show ?thesis using True d by (simp add: abs_s32_def)
  next
    case False
    then show ?thesis using d by (simp add: abs_s32_def)
  qed
qed

lemma reso_dist_exact:
  assumes "manhattan m f < 2 ^ 31"
  shows "sint (ov13b10_get_reso_dist m f) = manhattan m f"
proof -
  have w: "\<bar>uint (width m) - uint (fmt_width f)\<bar> < 2 ^ 31"
    and h: "\<bar>uint (height m) - uint (fmt_height f)\<bar> < 2 ^ 31"
    using assms unfolding manhattan_def by linarith+
  note aw = abs_s32_exact [OF w] and ah = abs_s32_exact [OF h]
  have "sint (abs_s32 (width m - fmt_width f) + abs_s32 (height m - fmt_height f))
          = sint (abs_s32 (width m - fmt_width f)) + sint (abs_s32 (height m - fmt_height f))"
    using assms unfolding manhattan_def by (intro sint_add_exact) (simp_all add: aw ah)
  then show ?thesis by (simp add: ov13b10_get_reso_dist_def manhattan_def aw ah)
qed


lemma manhattan_nonneg: "0 \<le> manhattan m f"
  by (simp add: manhattan_def)

text \<open>The selection never fails: whatever is requested, the result is an entry of the table.\<close>

lemma best_fit_loop_in_range:
  "cur < length supported_modes \<Longrightarrow> best_fit_loop f i cur d < length supported_modes"
proof (induction f i cur d rule: best_fit_loop.induct)
  case (1 f i cur d)
  show ?case
  proof (cases "i < length supported_modes")
    case True
    then show ?thesis
      using "1.IH" "1.prems" by (subst best_fit_loop.simps) (simp add: Let_def)
  next
    case False
    then show ?thesis using "1.prems" by (subst best_fit_loop.simps) simp
  qed
qed

lemma find_best_fit_in_table: "ov13b10_find_best_fit f \<in> set supported_modes"
proof -
  have "0 < length supported_modes" by (simp add: supported_modes_def)
  then have "best_fit_loop f 0 0 (- 1) < length supported_modes"
    by (rule best_fit_loop_in_range)
  then show ?thesis unfolding ov13b10_find_best_fit_def by (rule nth_mem)
qed

text \<open>
  The loop invariant: once an entry has been seen, \<open>cur_best_fit\<close> is the first index
  among those seen whose distance is minimal, and \<open>cur_best_fit_dist\<close> is its distance.
\<close>

lemma best_fit_loop_first_min:
  assumes ex: "\<forall>j < length supported_modes.
                 sint (ov13b10_get_reso_dist (supported_modes ! j) f) = manhattan (supported_modes ! j) f"
    and inv: "(i = 0 \<and> d = - 1) \<or>
              (cur < i \<and> d = ov13b10_get_reso_dist (supported_modes ! cur) f
               \<and> (\<forall>j < i. manhattan (supported_modes ! cur) f \<le> manhattan (supported_modes ! j) f)
               \<and> (\<forall>j < cur. manhattan (supported_modes ! cur) f < manhattan (supported_modes ! j) f))"
    and le: "i \<le> length supported_modes"
  shows "best_fit_loop f i cur d < length supported_modes
       \<and> (\<forall>j < length supported_modes.
             manhattan (supported_modes ! best_fit_loop f i cur d) f \<le> manhattan (supported_modes ! j) f)
       \<and> (\<forall>j < best_fit_loop f i cur d.
             manhattan (supported_modes ! best_fit_loop f i cur d) f < manhattan (supported_modes ! j) f)"
  using ex inv le
proof (induction f i cur d rule: best_fit_loop.induct)
  case (1 f i cur d)
  note ex = "1.prems"(1)
  let ?N = "length supported_modes"
  let ?D = "\<lambda>j. manhattan (supported_modes ! j) f"
  let ?dist = "ov13b10_get_reso_dist (supported_modes ! i) f"
  have N: "0 < ?N" by (simp add: supported_modes_def)
  show ?case
  proof (cases "i < ?N")
    case False
    with "1.prems" N have "i = ?N" "cur < i" by auto
    moreover have "best_fit_loop f i cur d = cur"
      using False by (subst best_fit_loop.simps) simp
    ultimately show ?thesis using "1.prems" by auto
  next
    case True
    have di: "sint ?dist = ?D i" using ex True by simp
    have started: "d \<noteq> - 1" if "0 < i"
    proof
      assume "d = - 1"
      with "1.prems"(2) that
      have "cur < i" "ov13b10_get_reso_dist (supported_modes ! cur) f = - 1" by auto
      then have "cur < i" "sint (ov13b10_get_reso_dist (supported_modes ! cur) f) = - 1"
        by simp_all
      moreover have "cur < ?N" using \<open>cur < i\<close> True by simp
      ultimately have "?D cur = - 1" using ex by simp
      then show False using manhattan_nonneg [of "supported_modes ! cur" f] by simp
    qed
    show ?thesis
    proof (cases "d = - 1 \<or> sint ?dist < sint d")
      case take: True
      have inv': "(i + 1 = 0 \<and> ?dist = - 1) \<or>
              (i < i + 1 \<and> ?dist = ov13b10_get_reso_dist (supported_modes ! i) f
               \<and> (\<forall>j < i + 1. ?D i \<le> ?D j) \<and> (\<forall>j < i. ?D i < ?D j))"
      proof (cases "i = 0")
        case True
        then show ?thesis by simp
      next
        case False
        then have "0 < i" by simp
        with started take have lt: "sint ?dist < sint d" by simp
        from "1.prems" \<open>0 < i\<close>
        have c: "cur < i" "d = ov13b10_get_reso_dist (supported_modes ! cur) f"
          "\<forall>j < i. ?D cur \<le> ?D j" by auto
        have "cur < ?N" using c(1) True by simp
        then have "sint d = ?D cur" using ex c(2) by simp
        with lt di have "?D i < ?D cur" by simp
        with c(3) have "\<forall>j < i. ?D i < ?D j" by fastforce
        then show ?thesis by (auto simp add: less_Suc_eq)
      qed
      have "best_fit_loop f i cur d = best_fit_loop f (i + 1) i ?dist"
        using True take by (subst best_fit_loop.simps) (simp add: Let_def)
      moreover have "i + 1 \<le> ?N" using True by simp
      ultimately show ?thesis
        using "1.IH"(1) [OF True refl take ex inv'] by simp
    next
      case keep: False
      then have "d \<noteq> - 1" "sint d \<le> sint ?dist" by auto
      with "1.prems"
      have c: "cur < i" "d = ov13b10_get_reso_dist (supported_modes ! cur) f"
        "\<forall>j < i. ?D cur \<le> ?D j" "\<forall>j < cur. ?D cur < ?D j" by auto
      have "cur < ?N" using c(1) True by simp
      then have "sint d = ?D cur" using ex c(2) by simp
      with \<open>sint d \<le> sint ?dist\<close> di have "?D cur \<le> ?D i" by simp
      with c(3) have "\<forall>j < i + 1. ?D cur \<le> ?D j" by (auto simp add: less_Suc_eq)
      with c have inv': "(i + 1 = 0 \<and> d = - 1) \<or>
              (cur < i + 1 \<and> d = ov13b10_get_reso_dist (supported_modes ! cur) f
               \<and> (\<forall>j < i + 1. ?D cur \<le> ?D j) \<and> (\<forall>j < cur. ?D cur < ?D j))"
        by simp
      have "best_fit_loop f i cur d = best_fit_loop f (i + 1) cur d"
        using True keep by (subst best_fit_loop.simps) (simp add: Let_def)
      moreover have "i + 1 \<le> ?N" using True by simp
      ultimately show ?thesis
        using "1.IH"(2) [OF True refl keep ex inv'] by simp
    qed
  qed
qed

text \<open>
  C1, as amended. For every requested size whose Manhattan distance to each entry of the
  mode table is below \<open>2^31\<close>, \<open>ov13b10_find_best_fit\<close> returns an entry of the table with
  minimal Manhattan distance, and every entry before it in the table is strictly farther
  away: among equally near entries the first one is returned.
\<close>

theorem find_best_fit_first_min:
  assumes "\<forall>m \<in> set supported_modes. manhattan m f < 2 ^ 31"
  shows "\<exists>k < length supported_modes.
           ov13b10_find_best_fit f = supported_modes ! k
           \<and> (\<forall>j < length supported_modes.
                 manhattan (supported_modes ! k) f \<le> manhattan (supported_modes ! j) f)
           \<and> (\<forall>j < k. manhattan (supported_modes ! k) f < manhattan (supported_modes ! j) f)"
proof -
  have ex: "\<forall>j < length supported_modes.
      sint (ov13b10_get_reso_dist (supported_modes ! j) f) = manhattan (supported_modes ! j) f"
    using assms by (auto intro!: reso_dist_exact)
  show ?thesis
    using best_fit_loop_first_min [OF ex, of 0 "- 1" 0]
    by (auto simp add: ov13b10_find_best_fit_def)
qed


theorem find_best_fit_first_min_witness:
  "ov13b10_find_best_fit \<lparr>fmt_width = 4200, fmt_height = 3100\<rparr> = supported_modes ! 0
   \<and> width (ov13b10_find_best_fit \<lparr>fmt_width = 4200, fmt_height = 3100\<rparr>) = 4208
   \<and> height (ov13b10_find_best_fit \<lparr>fmt_width = 4200, fmt_height = 3100\<rparr>) = 3120"
proof -
  let ?f = "\<lparr>fmt_width = 4200, fmt_height = 3100\<rparr>"
  have h: "\<forall>m \<in> set supported_modes. manhattan m ?f < 2 ^ 31"
    by (simp add: supported_modes_def manhattan_def)
  from find_best_fit_first_min [OF h]
  obtain k where k: "k < length supported_modes"
    "ov13b10_find_best_fit ?f = supported_modes ! k"
    "\<forall>j < length supported_modes. manhattan (supported_modes ! k) ?f \<le> manhattan (supported_modes ! j) ?f"
    by blast
  have "k = 0 \<or> k = 1 \<or> k = 2 \<or> k = 3 \<or> k = 4"
    using k(1) by (simp add: supported_modes_def) arith
  moreover have "0 < length supported_modes" by (simp add: supported_modes_def)
  with k(3) have "manhattan (supported_modes ! k) ?f \<le> manhattan (supported_modes ! 0) ?f"
    by blast
  ultimately have "k = 0"
    by (elim disjE) (simp_all add: supported_modes_def manhattan_def)
  then show ?thesis using k(2) by (simp add: supported_modes_def)
qed

text \<open>Requests below \<open>2^30\<close> in both dimensions are within that range.\<close>

lemma small_request_distances:
  assumes "uint (fmt_width f) < 2 ^ 30" and "uint (fmt_height f) < 2 ^ 30"
  shows "\<forall>m \<in> set supported_modes. manhattan m f < 2 ^ 31"
proof -
  have w: "0 \<le> uint (fmt_width f)" "uint (fmt_width f) < 1073741824"
    and h: "0 \<le> uint (fmt_height f)" "uint (fmt_height f) < 1073741824"
    using assms by simp_all
  have "\<bar>a - uint (fmt_width f)\<bar> + \<bar>b - uint (fmt_height f)\<bar> < 2147483648"
    if "0 \<le> a" "a \<le> 4208" "0 \<le> b" "b \<le> 3120" for a b
    using that w h by linarith
  then show ?thesis
    by (simp add: supported_modes_def manhattan_def)
qed

text \<open>
  C1 as stated, for every requested size, fails: the distance is computed in 32 bits. For
  the request 4294967295 x 0 the differences wrap around, the function returns the
  2080 x 1170 entry, and the 4160 x 2340 entry is nearer.
\<close>

theorem find_best_fit_wrap_counterexample:
  "ov13b10_find_best_fit \<lparr>fmt_width = 0xFFFFFFFF, fmt_height = 0\<rparr> = supported_modes ! 4
   \<and> manhattan (supported_modes ! 4) \<lparr>fmt_width = 0xFFFFFFFF, fmt_height = 0\<rparr> = 4294966385
   \<and> manhattan (supported_modes ! 2) \<lparr>fmt_width = 0xFFFFFFFF, fmt_height = 0\<rparr> = 4294965475
   \<and> manhattan (supported_modes ! 2) \<lparr>fmt_width = 0xFFFFFFFF, fmt_height = 0\<rparr>
       < manhattan (ov13b10_find_best_fit \<lparr>fmt_width = 0xFFFFFFFF, fmt_height = 0\<rparr>)
           \<lparr>fmt_width = 0xFFFFFFFF, fmt_height = 0\<rparr>"
proof -
  let ?f = "\<lparr>fmt_width = 0xFFFFFFFF, fmt_height = 0\<rparr>"
  have "best_fit_loop ?f 0 0 (- 1) = 4"
    by (simp add: best_fit_loop.simps ov13b10_get_reso_dist_def abs_s32_def supported_modes_def
        Let_def)
  then show ?thesis
    by (simp add: ov13b10_find_best_fit_def manhattan_def supported_modes_def)
qed

section \<open>Properties of starting the stream\<close>

text \<open>
  The same loop on a table that has no \<open>REG_NULL\<close> entry: after the last entry the loop
  condition reads \<open>regs[i].addr\<close> one element past the table.
\<close>

lemma write_array_loop_unterminated:
  assumes "\<forall>e\<in>set pre. addr e \<noteq> REG_NULL"
  shows "write_array_loop (done @ pre) (length done) 0 w =
           (case applyProgram pre w of (r, w') \<Rightarrow> if r \<noteq> 0 then (Ret r, w') else (Fault, w'))"
  using assms
proof (induction pre arbitrary: "done" w)
  case Nil
  then show ?case by (simp add: write_array_loop.simps)
next
  case (Cons e es)
  let ?regs = "done @ e # es"
  have a: "addr e \<noteq> REG_NULL" using Cons.prems by simp
  have r: "?regs = (done @ [e]) @ es" by simp
  obtain ret w' where wr: "ov13b10_write_reg (addr e) OV13B10_REG_VALUE_08BIT (ucast (val e)) w = (ret, w')"
    by (cases "ov13b10_write_reg (addr e) OV13B10_REG_VALUE_08BIT (ucast (val e)) w")
  have step: "write_array_loop ?regs (length done) 0 w = write_array_loop ?regs (length done + 1) ret w'"
    using a wr by (subst write_array_loop.simps) simp
  show ?case
  proof (cases "ret = 0")
    case True
    have "write_array_loop ?regs (length (done @ [e])) 0 w'
            = (case applyProgram es w' of (r, w'') \<Rightarrow> if r \<noteq> 0 then (Ret r, w'') else (Fault, w''))"
      unfolding r using Cons.prems by (intro Cons.IH) simp
    then show ?thesis using step wr True by (simp add: OV13B10_REG_VALUE_08BIT_def)
  next
    case False
    then have "write_array_loop ?regs (length done + 1) ret w' = (Ret ret, w')"
      by (subst write_array_loop.simps) simp
    then show ?thesis using step wr False by (simp add: OV13B10_REG_VALUE_08BIT_def)
  qed
qed

text \<open>
  On a table without a \<open>REG_NULL\<close> entry, and with no bus failure, the loop sends every
  entry and then reads past the end of the table.
\<close>

lemma write_array_unterminated:
  assumes "\<forall>e\<in>set regs. addr e \<noteq> REG_NULL"
    and "first_fault (length regs) (i2c_faults w) = None"
  shows "fst (ov13b10_write_array regs w) = Fault"
    and "sent (trace (snd (ov13b10_write_array regs w))) = sent (trace w) @ map entry_msg regs"
proof -
  have e: "ov13b10_write_array regs w =
      (case applyProgram regs w of (r, w') \<Rightarrow> if r \<noteq> 0 then (Ret r, w') else (Fault, w'))"
    using write_array_loop_unterminated [OF assms(1), of "[]" w]
    by (simp add: ov13b10_write_array_def)
  obtain r w' where a: "applyProgram regs w = (r, w')"
    by (cases "applyProgram regs w")
  have "r = 0 \<and> sent (trace w') = sent (trace w) @ map entry_msg regs"
    using applyProgram_result [of regs w] assms(2) a by simp
  then show "fst (ov13b10_write_array regs w) = Fault"
    and "sent (trace (snd (ov13b10_write_array regs w))) = sent (trace w) @ map entry_msg regs"
    unfolding e a by simp_all
qed

text \<open>No table of the file carries the terminator the loop looks for.\<close>

lemma mode_tables_unterminated:
  "\<forall>m\<in>set supported_modes. \<forall>e\<in>set (reg_list m). addr e \<noteq> REG_NULL"
  by (simp add: supported_modes_def REG_NULL_def mode_4208x3120_regs_def
      mode_4160x3120_regs_def mode_4160x2340_regs_def mode_2104x1560_regs_def
      mode_2080x1170_regs_def)

lemma global_regs_unterminated: "\<forall>e\<in>set ov13b10_global_regs. addr e \<noteq> REG_NULL"
  by (simp add: ov13b10_global_regs_def REG_NULL_def)

text \<open>
  C2. The specification has a start request while stopped write the active mode's register
  program, then the held control values, then the streaming value to register 0x0100. The
  active mode is an entry of the mode table, and none of the tables ends in the
  \<open>REG_NULL\<close> entry that \<open>ov13b10_write_array\<close> stops at. So whenever resuming the device
  succeeds and the bus accepts the writes, the start request sends every entry of the
  mode's table and then reads past its end: no control value and no streaming value is
  written by any defined behaviour of the code, and the instance is not marked streaming.
\<close>

theorem start_stream_reads_past_table:
  assumes "cur_mode s \<in> set supported_modes" and "\<not> streaming s" and "on \<noteq> 0"
    and "0 \<le> pm_get_sync_ret w"
    and "first_fault (length (reg_list (cur_mode s))) (i2c_faults w) = None"
  shows "fst (ov13b10_s_stream on s w) = Fault
       \<and> sent (trace (snd (snd (ov13b10_s_stream on s w))))
           = sent (trace w) @ map entry_msg (reg_list (cur_mode s))
       \<and> \<not> streaming (fst (snd (ov13b10_s_stream on s w)))"
proof -
  let ?w0 = "emit Mutex_Lock w"
  let ?w1 = "emit Pm_Runtime_Get_Sync (?w0\<lparr>pm_usage := Suc (pm_usage ?w0)\<rparr>)"
  have u: "\<forall>e\<in>set (reg_list (cur_mode s)). addr e \<noteq> REG_NULL"
    using mode_tables_unterminated assms(1) by blast
  have f: "i2c_faults ?w1 = i2c_faults w" and t: "sent (trace ?w1) = sent (trace w)"
    by (simp_all add: emit_def)
  have ff: "first_fault (length (reg_list (cur_mode s))) (i2c_faults ?w1) = None"
    using assms(5) f by simp
  note wa = write_array_unterminated [OF u ff]
  obtain w2 where w2: "ov13b10_write_array (reg_list (cur_mode s)) ?w1 = (Fault, w2)"
    using wa(1) by (cases "ov13b10_write_array (reg_list (cur_mode s)) ?w1") simp
  have st: "ov13b10_start_stream s ?w1 = (Fault, s, w2)"
    unfolding ov13b10_start_stream_def w2 by simp
  have g: "pm_runtime_get_sync ?w0 = (pm_get_sync_ret w, ?w1)"
    by (simp add: pm_runtime_get_sync_def emit_def)
  have "ov13b10_s_stream on s w = (Fault, s, w2)"
    unfolding ov13b10_s_stream_def Let_def g using assms(2,3,4) by (simp add: st)
  then show ?thesis using wa(2) w2 t assms(2) by simp
qed

theorem start_stream_reads_past_table_witness:
  "fst (ov13b10_s_stream 1 probed world0) = Fault
   \<and> sent (trace (snd (snd (ov13b10_s_stream 1 probed world0)))) = map entry_msg mode_4208x3120_regs
   \<and> length (sent (trace (snd (snd (ov13b10_s_stream 1 probed world0))))) = 41
   \<and> \<not> streaming (fst (snd (ov13b10_s_stream 1 probed world0)))"
proof -
  have p: "cur_mode probed = supported_modes ! 0" "\<not> streaming probed"
    by (simp_all add: probed_def ov13b10_initialize_controls_def Let_def)
  have m: "supported_modes ! 0 \<in> set supported_modes"
    "reg_list (supported_modes ! 0) = mode_4208x3120_regs"
    by (simp_all add: supported_modes_def)
  have h1: "cur_mode probed \<in> set supported_modes" using p m by simp
  have h4: "0 \<le> pm_get_sync_ret world0" by (simp add: world0_def)
  have h5: "first_fault (length (reg_list (cur_mode probed))) (i2c_faults world0) = None"
    by (simp add: world0_def)
  have l: "length mode_4208x3120_regs = 41" by (simp add: mode_4208x3120_regs_def)
  show ?thesis
    using start_stream_reads_past_table [OF h1 p(2) _ h4 h5, of 1]
    by (simp add: p m l world0_def)
qed

text \<open>
  The start sequence itself, on a register program that is terminated (which no table of
  this file is) and a bus that does not fail.
\<close>

lemma pm_usage_i2c_master_send [simp]:
  "pm_usage (snd (i2c_master_send buf w)) = pm_usage w"
  by (simp add: i2c_master_send_def Let_def pop_fault_def emit_def split: list.splits)

lemma write_reg_quiet:
  assumes "len \<le> 4" and "i2c_faults w = []"
  shows "ov13b10_write_reg reg len v w = (0, snd (i2c_master_send (reg_msg reg len v) w))"
  using assms by (simp add: write_reg_eq next_fault_def)

lemma set_ctrl_in_use:
  assumes "0 < pm_usage w" and "i2c_faults w = []"
  shows "fst (ov13b10_set_ctrl cid v s w) = 0
       \<and> sent (trace (snd (snd (ov13b10_set_ctrl cid v s w)))) = sent (trace w) @ ctrl_msgs cid v s
       \<and> i2c_faults (snd (snd (ov13b10_set_ctrl cid v s w))) = []
       \<and> pm_usage (snd (snd (ov13b10_set_ctrl cid v s w))) = pm_usage w
       \<and> cur_mode (fst (snd (ov13b10_set_ctrl cid v s w))) = cur_mode s
       \<and> streaming (fst (snd (ov13b10_set_ctrl cid v s w))) = streaming s
       \<and> (\<forall>c. ctrl_val (ctrl_of c (fst (snd (ov13b10_set_ctrl cid v s w)))) = ctrl_val (ctrl_of c s))"
proof -
  have q: "ov13b10_write_reg reg len x w' = (0, snd (i2c_master_send (reg_msg reg len x) w'))"
    if "len \<le> 4" "i2c_faults w' = []" for reg len x w'
    using that by (rule write_reg_quiet)
  have cv: "\<forall>c. ctrl_val (ctrl_of c (s\<lparr>exposure := (exposure s)\<lparr>maximum := b\<rparr>\<rparr>))
                  = ctrl_val (ctrl_of c s)" for b
    by (auto simp add: ctrl_of_def split: ctrl_id.splits)
  show ?thesis
    using assms
    by (cases cid)
      (simp_all add: ov13b10_set_ctrl_def set_ctrl_range_def set_ctrl_write_def
        ov13b10_enable_test_pattern_def v4l2_ctrl_modify_range_def
        pm_runtime_get_if_in_use_def pm_runtime_put_def emit_def Let_def q cv ctrl_msgs_def
        OV13B10_REG_VALUE_08BIT_def OV13B10_REG_VALUE_16BIT_def OV13B10_REG_VALUE_24BIT_def
        OV13B10_GAIN_H_SHIFT_def OV13B10_GAIN_H_MASK_def OV13B10_GAIN_L_MASK_def
        OV13B10_TEST_PATTERN_ENABLE_def OV13B10_TEST_PATTERN_DISABLE_def)
qed


lemma handler_setup_quiet:
  assumes "0 < pm_usage w" and "i2c_faults w = []"
  shows "fst (v4l2_ctrl_handler_setup s w) = 0
       \<and> sent (trace (snd (snd (v4l2_ctrl_handler_setup s w)))) = sent (trace w)
           @ ctrl_msgs V4L2_CID_VBLANK (ctrl_val (vblank s)) s
           @ ctrl_msgs V4L2_CID_EXPOSURE (ctrl_val (exposure s)) s
           @ ctrl_msgs V4L2_CID_ANALOGUE_GAIN (ctrl_val (anal_gain s)) s
           @ ctrl_msgs V4L2_CID_TEST_PATTERN (ctrl_val (test_pattern s)) s
       \<and> i2c_faults (snd (snd (v4l2_ctrl_handler_setup s w))) = []
       \<and> streaming (fst (snd (v4l2_ctrl_handler_setup s w))) = streaming s"
proof -
  obtain r1 s1 w1 where e1: "ov13b10_set_ctrl V4L2_CID_VBLANK (ctrl_val (vblank s)) s w = (r1, s1, w1)"
    by (metis prod_cases3)
  note a1 = set_ctrl_in_use [OF assms, of V4L2_CID_VBLANK "ctrl_val (vblank s)" s, unfolded e1, simplified]
  obtain r2 s2 w2 where e2: "ov13b10_set_ctrl V4L2_CID_EXPOSURE (ctrl_val (exposure s1)) s1 w1 = (r2, s2, w2)"
    by (metis prod_cases3)
  have u1: "0 < pm_usage w1" "i2c_faults w1 = []" using a1 assms by simp_all
  note a2 = set_ctrl_in_use [OF u1, of V4L2_CID_EXPOSURE "ctrl_val (exposure s1)" s1, unfolded e2, simplified]
  obtain r3 s3 w3 where e3: "ov13b10_set_ctrl V4L2_CID_ANALOGUE_GAIN (ctrl_val (anal_gain s2)) s2 w2 = (r3, s3, w3)"
    by (metis prod_cases3)
  have u2: "0 < pm_usage w2" "i2c_faults w2 = []" using a2 u1 by simp_all
  note a3 = set_ctrl_in_use [OF u2, of V4L2_CID_ANALOGUE_GAIN "ctrl_val (anal_gain s2)" s2, unfolded e3, simplified]
  obtain r4 s4 w4 where e4: "ov13b10_set_ctrl V4L2_CID_TEST_PATTERN (ctrl_val (test_pattern s3)) s3 w3 = (r4, s4, w4)"
    by (metis prod_cases3)
  have u3: "0 < pm_usage w3" "i2c_faults w3 = []" using a3 u2 by simp_all
  note a4 = set_ctrl_in_use [OF u3, of V4L2_CID_TEST_PATTERN "ctrl_val (test_pattern s3)" s3, unfolded e4, simplified]
  have v: "ctrl_val (exposure s1) = ctrl_val (exposure s)"
    "ctrl_val (anal_gain s2) = ctrl_val (anal_gain s)"
    "ctrl_val (test_pattern s3) = ctrl_val (test_pattern s)"
    using a1 a2 a3
      spec [of "\<lambda>c. ctrl_val (ctrl_of c s1) = ctrl_val (ctrl_of c s)" V4L2_CID_EXPOSURE]
      spec [of "\<lambda>c. ctrl_val (ctrl_of c s1) = ctrl_val (ctrl_of c s)" V4L2_CID_ANALOGUE_GAIN]
      spec [of "\<lambda>c. ctrl_val (ctrl_of c s2) = ctrl_val (ctrl_of c s1)" V4L2_CID_ANALOGUE_GAIN]
      spec [of "\<lambda>c. ctrl_val (ctrl_of c s1) = ctrl_val (ctrl_of c s)" V4L2_CID_TEST_PATTERN]
      spec [of "\<lambda>c. ctrl_val (ctrl_of c s2) = ctrl_val (ctrl_of c s1)" V4L2_CID_TEST_PATTERN]
      spec [of "\<lambda>c. ctrl_val (ctrl_of c s3) = ctrl_val (ctrl_of c s2)" V4L2_CID_TEST_PATTERN]
    by (simp_all add: ctrl_of_def)
  have m: "ctrl_msgs V4L2_CID_EXPOSURE x s1 = ctrl_msgs V4L2_CID_EXPOSURE x s"
    "ctrl_msgs V4L2_CID_ANALOGUE_GAIN x s2 = ctrl_msgs V4L2_CID_ANALOGUE_GAIN x s"
    "ctrl_msgs V4L2_CID_TEST_PATTERN x s3 = ctrl_msgs V4L2_CID_TEST_PATTERN x s" for x
    by (simp_all add: ctrl_msgs_def)
  have "v4l2_ctrl_handler_setup s w = (0, s4, w4)"
    using a1 a2 a3 a4
    by (simp add: v4l2_ctrl_handler_setup_def ctrl_of_def e1 e2 e3 e4)
  then show ?thesis using a1 a2 a3 a4 by (simp add: v m)
qed


lemma applyProgram_quiet:
  assumes "i2c_faults w = []"
  shows "fst (applyProgram es w) = 0
       \<and> sent (trace (snd (applyProgram es w))) = sent (trace w) @ map entry_msg es
       \<and> i2c_faults (snd (applyProgram es w)) = []
       \<and> pm_usage (snd (applyProgram es w)) = pm_usage w"
  using assms
proof (induction es arbitrary: w)
  case Nil
  then show ?case by simp
next
  case (Cons e es)
  let ?w' = "snd (i2c_master_send (entry_msg e) w)"
  have nf: "\<not> next_fault w" using Cons.prems by (simp add: next_fault_def)
  have ap: "applyProgram (e # es) w = applyProgram es ?w'"
    using nf by (simp add: write_entry [unfolded OV13B10_REG_VALUE_08BIT_def])
  have "i2c_faults ?w' = []" using Cons.prems by simp
  from Cons.IH [OF this] show ?case unfolding ap by simp
qed

text \<open>
  What the start request does on a program that is terminated: on a bus that does not
  fail it writes the entries before the terminator, then the held control values
  (vertical blank, exposure, gain high and low, test pattern), then the streaming value,
  returns 0 and marks the instance streaming.
\<close>

lemma start_stream_terminated_order:
  assumes "reg_list (cur_mode s) = pre @ \<lparr>addr = REG_NULL, val = x\<rparr> # rest"
    and "\<forall>e\<in>set pre. addr e \<noteq> REG_NULL"
    and "\<not> streaming s" and "on \<noteq> 0"
    and "0 \<le> pm_get_sync_ret w" and "i2c_faults w = []"
  shows "fst (ov13b10_s_stream on s w) = Ret 0
       \<and> streaming (fst (snd (ov13b10_s_stream on s w)))
       \<and> sent (trace (snd (snd (ov13b10_s_stream on s w)))) = sent (trace w)
           @ map entry_msg pre
           @ ctrl_msgs V4L2_CID_VBLANK (ctrl_val (vblank s)) s
           @ ctrl_msgs V4L2_CID_EXPOSURE (ctrl_val (exposure s)) s
           @ ctrl_msgs V4L2_CID_ANALOGUE_GAIN (ctrl_val (anal_gain s)) s
           @ ctrl_msgs V4L2_CID_TEST_PATTERN (ctrl_val (test_pattern s)) s
           @ [[0x01, 0x00, 0x01]]"
proof -
  let ?w0 = "emit Mutex_Lock w"
  let ?w1 = "emit Pm_Runtime_Get_Sync (?w0\<lparr>pm_usage := Suc (pm_usage ?w0)\<rparr>)"
  have g: "pm_runtime_get_sync ?w0 = (pm_get_sync_ret w, ?w1)"
    by (simp add: pm_runtime_get_sync_def emit_def)
  have w1: "i2c_faults ?w1 = []" "0 < pm_usage ?w1" "sent (trace ?w1) = sent (trace w)"
    using assms(6) by (simp_all add: emit_def)
  obtain r2 w2 where ap: "applyProgram pre ?w1 = (r2, w2)" by (cases "applyProgram pre ?w1")
  from applyProgram_quiet [OF w1(1), of pre] ap w1
  have w2: "r2 = 0" "sent (trace w2) = sent (trace w) @ map entry_msg pre"
    "i2c_faults w2 = []" "0 < pm_usage w2" by simp_all
  have wa: "ov13b10_write_array (reg_list (cur_mode s)) ?w1 = (Ret 0, w2)"
    unfolding assms(1) write_array_terminated [OF assms(2)] ap using w2(1) by simp
  let ?w3 = "emit Mutex_Unlock w2"
  have w3: "0 < pm_usage ?w3" "i2c_faults ?w3 = []" "sent (trace ?w3) = sent (trace w2)"
    using w2 by (simp_all add: emit_def)
  obtain r4 s4 w4 where hs: "v4l2_ctrl_handler_setup s ?w3 = (r4, s4, w4)" by (metis prod_cases3)
  from handler_setup_quiet [OF w3(1,2), of s] hs
  have w4: "r4 = 0" "i2c_faults w4 = []" "streaming s4 = streaming s"
    "sent (trace w4) = sent (trace ?w3)
           @ ctrl_msgs V4L2_CID_VBLANK (ctrl_val (vblank s)) s
           @ ctrl_msgs V4L2_CID_EXPOSURE (ctrl_val (exposure s)) s
           @ ctrl_msgs V4L2_CID_ANALOGUE_GAIN (ctrl_val (anal_gain s)) s
           @ ctrl_msgs V4L2_CID_TEST_PATTERN (ctrl_val (test_pattern s)) s"
    by simp_all
  let ?w5 = "emit Mutex_Lock w4"
  have w5: "i2c_faults ?w5 = []" "sent (trace ?w5) = sent (trace w4)"
    using w4 by (simp_all add: emit_def)
  have m: "reg_msg OV13B10_REG_CTRL_MODE 1 OV13B10_MODE_STREAMING = [0x01, 0x00, 0x01]"
    by (simp add: reg_msg_def cpu_to_be32_def OV13B10_REG_CTRL_MODE_def OV13B10_MODE_STREAMING_def)
  let ?w6 = "snd (i2c_master_send [0x01, 0x00, 0x01] ?w5)"
  have wr: "ov13b10_write_reg OV13B10_REG_CTRL_MODE OV13B10_REG_VALUE_08BIT OV13B10_MODE_STREAMING ?w5
              = (0, ?w6)"
    using write_reg_quiet [OF _ w5(1), of 1 OV13B10_REG_CTRL_MODE OV13B10_MODE_STREAMING]
    by (simp add: OV13B10_REG_VALUE_08BIT_def m)
  have st: "ov13b10_start_stream s ?w1 = (Ret 0, s4, ?w6)"
    unfolding ov13b10_start_stream_def wa using w4(1) by (simp add: hs Let_def wr)
  have "ov13b10_s_stream on s w = (Ret 0, s4\<lparr>streaming := True\<rparr>, emit Mutex_Unlock ?w6)"
    unfolding ov13b10_s_stream_def Let_def g using assms(3,4,5) by (simp add: st)
  then show ?thesis
    using w2(2) w3(3) w4(4) w5(2) by (simp add: emit_def)
qed

text \<open>Only a start request that returns 0 marks the instance streaming.\<close>

lemma streaming_set_ctrl [simp]:
  "streaming (fst (snd (ov13b10_set_ctrl cid v s w))) = streaming s"
  by (cases cid)
    (simp_all add: ov13b10_set_ctrl_def set_ctrl_range_def v4l2_ctrl_modify_range_def
      Let_def split: prod.splits)

lemma streaming_ctrl_setup_loop [simp]:
  "streaming (fst (snd (ctrl_setup_loop cs s w))) = streaming s"
proof (induction cs arbitrary: s w)
  case Nil
  then show ?case by simp
next
  case (Cons c cs)
  obtain r s' w' where e: "ov13b10_set_ctrl c (ctrl_val (ctrl_of c s)) s w = (r, s', w')"
    by (metis prod_cases3)
  have "streaming s' = streaming s"
    using streaming_set_ctrl [of c "ctrl_val (ctrl_of c s)" s w] e by simp
  then show ?case using Cons.IH [of s' w'] e by simp
qed

lemma start_error_keeps_stopped:
  assumes "\<not> streaming s" and "fst (ov13b10_s_stream on s w) \<noteq> Ret 0"
  shows "\<not> streaming (fst (snd (ov13b10_s_stream on s w)))"
proof -
  have ss: "streaming (fst (snd (ov13b10_start_stream s w'))) = streaming s" for w'
  proof -
    obtain o1 wa where wa: "ov13b10_write_array (reg_list (cur_mode s)) w' = (o1, wa)"
      by (cases "ov13b10_write_array (reg_list (cur_mode s)) w'")
    obtain r4 s4 w4 where hs: "v4l2_ctrl_handler_setup s (emit Mutex_Unlock wa) = (r4, s4, w4)"
      by (metis prod_cases3)
    have "streaming (fst (snd (v4l2_ctrl_handler_setup s (emit Mutex_Unlock wa)))) = streaming s"
      unfolding v4l2_ctrl_handler_setup_def by (rule streaming_ctrl_setup_loop)
    then have "streaming s4 = streaming s" using hs by simp
    then show ?thesis
      by (simp add: ov13b10_start_stream_def wa hs Let_def split: outcome.splits prod.splits)
  qed
  obtain r w1 where g: "pm_runtime_get_sync (emit Mutex_Lock w) = (r, w1)"
    by (cases "pm_runtime_get_sync (emit Mutex_Lock w)")
  obtain o2 s2 w2 where st: "ov13b10_start_stream s w1 = (o2, s2, w2)" by (metis prod_cases3)
  have "streaming s2 = streaming s" using ss [of w1] st by simp
  then show ?thesis
    using assms unfolding ov13b10_s_stream_def Let_def g
    by (simp add: st split: if_splits outcome.splits)
qed

end
